theory Spec2Isabelle
  imports Complex_Main
begin

section \<open>The terminal gateway of \<open>src/server.js\<close>\<close>

text \<open>
  The development follows \<open>src/src/server.js\<close>: the stream demultiplexer (the
  \<open>ws.on('message')\<close> handler), the token helpers \<open>generateToken\<close> and
  \<open>verifyToken\<close>, the session map \<open>activeSessions\<close>, the \<open>/getaccess\<close> handler,
  the \<open>wss.on('connection')\<close> handler and the four teardown handlers of an attached
  connection.

  Conventions. A \<open>Buffer\<close> is a list of bytes; an Isabelle \<open>char\<close> is one byte, so a
  buffer is a \<open>char list\<close> and \<open>of_char\<close> reads a byte as a number. Times are the
  millisecond values of \<open>Date.now()\<close>, as integers. The dependencies of the file
  (\<open>jsonwebtoken\<close>, \<open>uuid\<close>, \<open>dockerode\<close>, \<open>ws\<close>, the built-in \<open>JSON.parse\<close>) are
  not part of the repository: where a handler calls one, the value it hands back is an
  input of the handler's model, or the documented behaviour of the call is written out
  and marked as such.
\<close>

subsection \<open>Bytes and strings\<close>

type_synonym byte = char
type_synonym buffer = "byte list"

definition byte_val :: "byte \<Rightarrow> nat" where
  "byte_val c = of_char c"

text \<open>\<open>String.prototype.startsWith\<close> and \<open>String.prototype.includes\<close>.\<close>

fun startsWith :: "string \<Rightarrow> string \<Rightarrow> bool" where
  "startsWith s [] = True"
| "startsWith [] (p # ps) = False"
| "startsWith (c # cs) (p # ps) = (c = p \<and> startsWith cs ps)"

fun includes_str :: "string \<Rightarrow> string \<Rightarrow> bool" where
  "includes_str [] p = (p = [])"
| "includes_str (c # cs) p = (startsWith (c # cs) p \<or> includes_str cs p)"

text \<open>\<open>Array.prototype.some\<close> and \<open>Array.prototype.find\<close>.\<close>

fun some_elem :: "('a \<Rightarrow> bool) \<Rightarrow> 'a list \<Rightarrow> bool" where
  "some_elem p [] = False"
| "some_elem p (x # xs) = (p x \<or> some_elem p xs)"

fun find_first :: "('a \<Rightarrow> bool) \<Rightarrow> 'a list \<Rightarrow> 'a option" where
  "find_first p [] = None"
| "find_first p (x # xs) = (if p x then Some x else find_first p xs)"

subsection \<open>JavaScript values read by the resize branch\<close>

text \<open>
  A JavaScript number that \<open>JSON.parse\<close> or \<open>Number\<close> of a digit string can return:
  a finite double, which is a rational, or an infinity (\<open>NaN\<close> is returned by neither).
\<close>

datatype jsnum =
    Fin rat
  | PosInf
  | NegInf

text \<open>The values \<open>JSON.parse\<close> can return.\<close>

datatype json =
    JNull
  | JBool bool
  | JNum jsnum
  | JStr string
  | JArr "json list"
  | JObj "(string \<times> json) list"

text \<open>
  A property read \<open>obj.key\<close> on a parsed object: \<open>None\<close> is \<open>undefined\<close>. The
  members are listed with the member that \<open>JSON.parse\<close> keeps for a key first.
\<close>

definition get_prop :: "(string \<times> json) list \<Rightarrow> string \<Rightarrow> json option" where
  "get_prop members key = map_of members key"

text \<open>Truthiness, \<open>a || b\<close> and \<open>a && b\<close> on possibly undefined values.\<close>

fun truthy :: "json option \<Rightarrow> bool" where
  "truthy None = False"
| "truthy (Some JNull) = False"
| "truthy (Some (JBool b)) = b"
| "truthy (Some (JNum n)) = (n \<noteq> Fin 0)"
| "truthy (Some (JStr s)) = (s \<noteq> [])"
| "truthy (Some (JArr xs)) = True"
| "truthy (Some (JObj ms)) = True"

definition js_or :: "json option \<Rightarrow> json option \<Rightarrow> json option" where
  "js_or a b = (if truthy a then a else b)"

text \<open>
  A template literal \<open>`${v}`\<close> converts \<open>v\<close> to a string. For \<open>null\<close>, a boolean, a
  number or a string the conversion always returns. For an array or an object it runs
  \<open>toString\<close> and \<open>valueOf\<close> and can throw (a \<open>TypeError\<close> when the object has a
  member \<open>toString\<close>, which no JSON value can make callable; a \<open>RangeError\<close> when
  arrays are nested too deeply for the stack): whether it returns is an input,
  \<open>to_string v\<close>.
\<close>

definition template_ok :: "(json \<Rightarrow> bool) \<Rightarrow> json \<Rightarrow> bool" where
  "template_ok to_string v =
     (case v of
        JArr xs \<Rightarrow> to_string v
      | JObj ms \<Rightarrow> to_string v
      | _ \<Rightarrow> True)"

subsection \<open>The stream demultiplexer: \<open>ws.on('message')\<close>, lines 271 to 344\<close>

text \<open>
  The handler works on \<open>decoded = Buffer.from(message.toString(), 'base64')\<close>; the
  model starts from \<open>decoded\<close>. \<open>decoded.toString('utf-8')\<close> keeps every byte below
  128 as the same character and turns every other byte sequence into characters
  above 127, so the three tests the handler makes on \<open>text\<close> (the pattern
  \<open>/^\d+,\d+$/\<close>, \<open>startsWith('{')\<close>, \<open>includes('Width')\<close> and \<open>includes('height')\<close>),
  which look for ASCII characters only, are made on the bytes.
\<close>

text \<open>Filter 1, lines 278 to 282.\<close>

definition is_corruption :: "buffer \<Rightarrow> bool" where
  "is_corruption decoded \<longleftrightarrow>
     length decoded \<ge> 4 \<and>
     byte_val (decoded ! 0) = 0xCD \<and>
     byte_val (decoded ! 1) = 0xE4 \<and>
     byte_val (decoded ! 2) = 0xD3 \<and>
     byte_val (decoded ! 3) = 0x63"

text \<open>Filter 2, lines 289 to 291.\<close>

definition is_high_byte :: "buffer \<Rightarrow> bool" where
  "is_high_byte decoded \<longleftrightarrow>
     length decoded < 50 \<and> length decoded > 0 \<and> byte_val (decoded ! 0) > 0x7F"

text \<open>Filter 3, line 299: \<open>decoded.includes(0x1b) && decoded.includes(0x5d)\<close>.\<close>

fun includes_byte :: "buffer \<Rightarrow> nat \<Rightarrow> bool" where
  "includes_byte [] v = False"
| "includes_byte (c # cs) v = (byte_val c = v \<or> includes_byte cs v)"

definition hasControlSeq :: "buffer \<Rightarrow> bool" where
  "hasControlSeq decoded \<longleftrightarrow> includes_byte decoded 0x1B \<and> includes_byte decoded 0x5D"

text \<open>
  Line 311, \<open>text.match(/^\d+,\d+$/)\<close>: one or more ASCII digits, a comma, one or more
  ASCII digits, and nothing else (no \<open>m\<close> flag, so \<open>$\<close> is the end of the text).
\<close>

definition is_digit :: "char \<Rightarrow> bool" where
  "is_digit c \<longleftrightarrow> 48 \<le> byte_val c \<and> byte_val c \<le> 57"

fun all_digits :: "string \<Rightarrow> bool" where
  "all_digits [] = True"
| "all_digits (c # cs) = (is_digit c \<and> all_digits cs)"

definition matches_numeric :: "string \<Rightarrow> bool" where
  "matches_numeric text =
     (let a = takeWhile is_digit text; rest = dropWhile is_digit text
      in a \<noteq> [] \<and>
         (case rest of
            [] \<Rightarrow> False
          | c # b \<Rightarrow> c = CHR '','' \<and> b \<noteq> [] \<and> all_digits b))"

text \<open>
  Line 313, \<open>text.split(',').map(Number)\<close> on a text that matched: the two digit
  runs, each converted by \<open>Number\<close>. \<open>Number\<close> of a digit string is the double nearest
  to its decimal value, ties going to the even mantissa, and \<open>Infinity\<close> from
  \<open>2^1024 - 2^970\<close> on (as V8 computes it; ECMAScript allows an approximation past
  the twentieth significant digit). The first run is \<open>cols\<close>, the second \<open>rows\<close>.
\<close>

definition decimal_value :: "string \<Rightarrow> nat" where
  "decimal_value ds = foldl (\<lambda>n c. 10 * n + (byte_val c - 48)) 0 ds"

text \<open>The number of binary digits of a natural number.\<close>

fun bitlen :: "nat \<Rightarrow> nat" where
  "bitlen n = (if n = 0 then 0 else Suc (bitlen (n div 2)))"

declare bitlen.simps [simp del]

definition round_to_double :: "nat \<Rightarrow> jsnum" where
  "round_to_double n =
     (if n < 2 ^ 53 then Fin (of_nat n)
      else
        (let e = bitlen n - 53;
             q = n div 2 ^ e;
             r = n mod 2 ^ e;
             half = 2 ^ (e - 1);
             q' = (if r > half \<or> (r = half \<and> odd q) then q + 1 else q);
             v = q' * 2 ^ e
         in if v \<ge> 2 ^ 1024 then PosInf else Fin (of_nat v)))"

definition Number_digits :: "string \<Rightarrow> jsnum" where
  "Number_digits ds = round_to_double (decimal_value ds)"

definition split_cols :: "string \<Rightarrow> jsnum" where
  "split_cols text = Number_digits (takeWhile is_digit text)"

definition split_rows :: "string \<Rightarrow> jsnum" where
  "split_rows text = Number_digits (tl (dropWhile is_digit text))"

text \<open>Line 322, the test that guards \<open>JSON.parse\<close>.\<close>

definition json_gate :: "string \<Rightarrow> bool" where
  "json_gate text \<longleftrightarrow>
     startsWith text ''{'' \<and> (includes_str text ''Width'' \<or> includes_str text ''height'')"

text \<open>
  Lines 324 to 327. \<open>JSON.parse\<close> is an input: \<open>parse text\<close> is \<open>None\<close> when
  \<open>JSON.parse(text)\<close> throws, and the members of the object otherwise (a text that
  begins with \<open>{\<close> parses to an object or not at all).
\<close>

type_synonym json_parser = "string \<Rightarrow> (string \<times> json) list option"

definition resize_rows :: "(string \<times> json) list \<Rightarrow> json option" where
  "resize_rows resizeData =
     js_or (js_or (get_prop resizeData ''Height'') (get_prop resizeData ''height''))
           (get_prop resizeData ''h'')"

definition resize_cols :: "(string \<times> json) list \<Rightarrow> json option" where
  "resize_cols resizeData =
     js_or (js_or (get_prop resizeData ''Width'') (get_prop resizeData ''width''))
           (get_prop resizeData ''w'')"

text \<open>
  The six ways the handler ends: the three \<open>return\<close>s of the filters, the \<open>return\<close>
  after each of the two \<open>exec.resize({ h: rows, w: cols })\<close> calls (with \<open>rows\<close>, then
  \<open>cols\<close>), and \<open>stream.write(decoded)\<close>.
\<close>

datatype outcome =
    DiscardCorruption
  | DiscardHighByte
  | DiscardEscape
  | ResizeNumeric jsnum jsnum
  | ResizeStructured json json
  | ForwardRaw buffer

text \<open>
  The handler. In the JSON branch the log line of line 328, with its template literal
  \<open>`Resize JSON: ${cols}x${rows}`\<close>, stands before \<open>exec.resize\<close> inside the \<open>try\<close>
  of line 323: when the conversion of \<open>cols\<close> or \<open>rows\<close> throws, the \<open>catch\<close> of line
  334 takes over and the frame goes on to \<open>stream.write\<close>, as it does when
  \<open>JSON.parse\<close> throws. \<open>exec.resize\<close> returns a promise: its failure comes later
  and is only logged (lines 315 and 329).
\<close>

definition on_message :: "json_parser \<Rightarrow> (json \<Rightarrow> bool) \<Rightarrow> buffer \<Rightarrow> outcome" where
  "on_message parse to_string decoded =
     (if is_corruption decoded then DiscardCorruption
      else if is_high_byte decoded then DiscardHighByte
      else if hasControlSeq decoded then DiscardEscape
      else if matches_numeric decoded
        then ResizeNumeric (split_rows decoded) (split_cols decoded)
      else if json_gate decoded then
        (case parse decoded of
           None \<Rightarrow> ForwardRaw decoded
         | Some resizeData \<Rightarrow>
             (case (resize_rows resizeData, resize_cols resizeData) of
                (Some rows, Some cols) \<Rightarrow>
                  if truthy (Some rows) \<and> truthy (Some cols) then
                    (if template_ok to_string cols \<and> template_ok to_string rows
                     then ResizeStructured rows cols
                     else ForwardRaw decoded)
                  else ForwardRaw decoded
              | _ \<Rightarrow> ForwardRaw decoded))
      else ForwardRaw decoded)"

text \<open>
  What reaches the container for each way of ending: \<open>ExecResize h w\<close> is the call
  \<open>exec.resize({ h, w })\<close>, \<open>StreamWrite\<close> the bytes written to the input of the
  process.
\<close>

datatype effect =
    ExecResize json json
  | StreamWrite buffer

fun effects :: "outcome \<Rightarrow> effect list" where
  "effects DiscardCorruption = []"
| "effects DiscardHighByte = []"
| "effects DiscardEscape = []"
| "effects (ResizeNumeric rows cols) = [ExecResize (JNum rows) (JNum cols)]"
| "effects (ResizeStructured rows cols) = [ExecResize rows cols]"
| "effects (ForwardRaw decoded) = [StreamWrite decoded]"

subsection \<open>The rules of the specification, section 4.4\<close>

text \<open>
  The first four rules as the specification words them, for comparison with the tests
  of the handler: the decoded bytes start with the four bytes \<open>CD E4 D3 63\<close>; the
  length is under 50 and the first byte exceeds 127; the bytes contain both \<open>1B\<close> and
  \<open>5D\<close>; the text is digits, a comma, digits.
\<close>

definition spec_corruption :: "buffer \<Rightarrow> bool" where
  "spec_corruption d \<longleftrightarrow> take 4 d = [CHR 0xCD, CHR 0xE4, CHR 0xD3, CHR 0x63]"

definition spec_high_byte :: "buffer \<Rightarrow> bool" where
  "spec_high_byte d \<longleftrightarrow> length d < 50 \<and> d \<noteq> [] \<and> 127 < (of_char (hd d) :: nat)"

definition spec_escape :: "buffer \<Rightarrow> bool" where
  "spec_escape d \<longleftrightarrow> CHR 0x1B \<in> set d \<and> CHR 0x5D \<in> set d"

definition spec_digits :: "string \<Rightarrow> bool" where
  "spec_digits s \<longleftrightarrow> s \<noteq> [] \<and> set s \<subseteq> set ''0123456789''"

definition spec_numeric :: "string \<Rightarrow> bool" where
  "spec_numeric d \<longleftrightarrow> (\<exists>a b. d = a @ '','' @ b \<and> spec_digits a \<and> spec_digits b)"

subsection \<open>Configuration, lines 16 to 23\<close>

text \<open>
  \<open>JWT_SECRET\<close> and \<open>TOKEN_EXPIRY\<close> come from the environment and are constant for
  the life of the process. \<open>TOKEN_EXPIRY\<close> is kept as the number of seconds that
  \<open>jsonwebtoken\<close> reads from it (\<open>'5m'\<close> is 300).
\<close>

record config =
  JWT_SECRET :: string
  TOKEN_EXPIRY :: nat

subsection \<open>Tokens: \<open>generateToken\<close> and \<open>verifyToken\<close>, lines 81 to 102\<close>

text \<open>
  The two functions call \<open>jwt.sign\<close> and \<open>jwt.verify\<close> of the \<open>jsonwebtoken\<close>
  package. The package is written out symbolically, from its documentation: a token is
  either text that is no JSON Web Token, or a claim set together with the secret that
  signed it. \<open>jwt.sign\<close> with \<open>expiresIn\<close> adds \<open>iat\<close> (the clock in whole seconds)
  and \<open>exp = iat + expiresIn\<close>; \<open>jwt.verify\<close> throws on text that is no token, then on
  a signature made with another secret, then on \<open>exp\<close> not after the clock, and returns
  the claim set otherwise.
\<close>

record claims =
  claim_containerName :: string
  claim_sessionId :: string
  claim_type :: string
  claim_iat :: int
  claim_exp :: int

datatype token =
    NotAToken string
  | Signed claims string

datatype jwt_error = JsonWebTokenMalformed | JsonWebTokenInvalidSignature | TokenExpiredError

definition jwt_sign :: "string \<Rightarrow> string \<Rightarrow> string \<Rightarrow> string \<Rightarrow> nat \<Rightarrow> int \<Rightarrow> token" where
  "jwt_sign cname sid ty secret expiresIn now =
     Signed \<lparr> claim_containerName = cname, claim_sessionId = sid, claim_type = ty,
              claim_iat = now div 1000, claim_exp = now div 1000 + int expiresIn \<rparr> secret"

definition jwt_verify :: "token \<Rightarrow> string \<Rightarrow> int \<Rightarrow> jwt_error + claims" where
  "jwt_verify tok secret now =
     (case tok of
        NotAToken s \<Rightarrow> Inl JsonWebTokenMalformed
      | Signed payload signer \<Rightarrow>
          if signer \<noteq> secret then Inl JsonWebTokenInvalidSignature
          else if now div 1000 \<ge> claim_exp payload then Inl TokenExpiredError
          else Inr payload)"

text \<open>Lines 81 to 91. \<open>now\<close> is the clock \<open>jwt.sign\<close> reads.\<close>

definition generateToken :: "config \<Rightarrow> int \<Rightarrow> string \<Rightarrow> string \<Rightarrow> token" where
  "generateToken cfg now containerName sessionId =
     jwt_sign containerName sessionId ''terminal-access''
       (JWT_SECRET cfg) (TOKEN_EXPIRY cfg) now"

text \<open>Lines 96 to 102: the \<open>catch\<close> turns every exception into \<open>null\<close>.\<close>

definition verifyToken :: "config \<Rightarrow> int \<Rightarrow> token \<Rightarrow> claims option" where
  "verifyToken cfg now tok =
     (case jwt_verify tok (JWT_SECRET cfg) now of
        Inl error \<Rightarrow> None
      | Inr decoded \<Rightarrow> Some decoded)"

subsection \<open>The session map \<open>activeSessions\<close>, line 33\<close>

record session =
  containerName :: string
  containerId :: string
  createdAt :: int

type_synonym registry = "string \<rightharpoonup> session"

text \<open>Lines 152 to 157: the loop deletes every entry created before \<open>tenMinutesAgo\<close>.\<close>

definition sweep :: "int \<Rightarrow> registry \<Rightarrow> registry" where
  "sweep tenMinutesAgo m =
     (\<lambda>id. case m id of
             None \<Rightarrow> None
           | Some s \<Rightarrow> if createdAt s < tenMinutesAgo then None else Some s)"

subsection \<open>\<open>GET /getaccess\<close>, lines 108 to 202\<close>

text \<open>An entry of \<open>docker.listContainers({ all: true })\<close>, with the fields the handler reads.\<close>

record container =
  c_Id :: string
  c_Names :: "string list"
  c_State :: string

text \<open>
  What the handler obtains from outside while it runs: the listing (\<open>Inl\<close> when the
  call fails, with the message of the error), the value of \<open>uuidv4()\<close>, the clock that
  \<open>jwt.sign\<close> reads, and the two values of \<open>Date.now()\<close> of lines 148 and 152.
\<close>

record access_env =
  listing :: "string + container list"
  uuid :: string
  t_sign :: int
  t_created :: int
  t_sweep :: int

text \<open>
  The body of a successful response, without \<open>url\<close> (built from the request headers
  and the token, lines 159 to 181).
\<close>

record access_data =
  d_token :: token
  d_sessionId :: string
  d_containerName :: string
  d_containerId :: string
  d_expiresIn :: nat

datatype response =
    Failure nat string
  | Success access_data

text \<open>The predicate of \<open>containers.find\<close>, lines 121 to 123.\<close>

definition matches :: "string \<Rightarrow> container \<Rightarrow> bool" where
  "matches name c \<longleftrightarrow>
     some_elem (\<lambda>n. includes_str n name) (c_Names c) \<or> startsWith (c_Id c) name"

definition not_found_message :: "string \<Rightarrow> string" where
  "not_found_message name = ''Container '' @ [CHR 0x27] @ name @ [CHR 0x27] @ '' not found''"

definition not_running_message :: "string \<Rightarrow> string \<Rightarrow> string" where
  "not_running_message name state =
     ''Container '' @ [CHR 0x27] @ name @ [CHR 0x27] @
     '' is not running (state: '' @ state @ '')''"

text \<open>
  The handler, after \<open>authenticateApiKey\<close> has let the request through. The query
  parameter is \<open>None\<close> when the request has none. The result is the response and the
  session map the handler leaves.
\<close>

definition getaccess :: "config \<Rightarrow> access_env \<Rightarrow> string option \<Rightarrow> registry \<Rightarrow> response \<times> registry" where
  "getaccess cfg env query activeSessions =
     (case query of
        None \<Rightarrow> (Failure 400 ''containerName is required as query parameter'', activeSessions)
      | Some name \<Rightarrow>
          if name = [] then
            (Failure 400 ''containerName is required as query parameter'', activeSessions)
          else
            (case listing env of
               Inl message \<Rightarrow> (Failure 500 message, activeSessions)
             | Inr containers \<Rightarrow>
                 (case find_first (matches name) containers of
                    None \<Rightarrow> (Failure 404 (not_found_message name), activeSessions)
                  | Some c \<Rightarrow>
                      if c_State c \<noteq> ''running'' then
                        (Failure 400 (not_running_message name (c_State c)), activeSessions)
                      else
                        (let sessionId = uuid env;
                             tok = generateToken cfg (t_sign env) name sessionId;
                             stored = activeSessions(sessionId \<mapsto>
                               \<lparr> containerName = name, containerId = c_Id c,
                                 createdAt = t_created env \<rparr>);
                             tenMinutesAgo = t_sweep env - 10 * 60 * 1000
                         in (Success \<lparr> d_token = tok, d_sessionId = sessionId,
                                       d_containerName = name, d_containerId = c_Id c,
                                       d_expiresIn = TOKEN_EXPIRY cfg \<rparr>,
                             sweep tenMinutesAgo stored)))))"

subsection \<open>The connection handler \<open>wss.on('connection')\<close>, lines 218 to 396\<close>

text \<open>
  What the handler sends on the socket: \<open>ErrorFrame m\<close> is
  \<open>JSON.stringify({ error: m })\<close>, \<open>DataFrame\<close> a chunk of output in base64.
\<close>

datatype frame =
    ErrorFrame string
  | DataFrame string

datatype ws_action =
    Send frame
  | Close

text \<open>
  The upgrade request, as lines 220 and 221 read it. \<open>url_parses\<close> is whether
  \<open>new URL(req.url, `http://${req.headers.host}`)\<close> returns: it throws a \<open>TypeError\<close>
  for a request target such as \<open>//?token=abc\<close> and for an empty or malformed \<open>Host\<close>
  header. \<open>token_param\<close> is the token the request carries in its query, \<open>None\<close> when
  it carries none; it is what \<open>url.searchParams.get('token')\<close> returns when the URL
  parses.
\<close>

record ws_request =
  url_parses :: bool
  token_param :: "token option"

text \<open>
  How far a connection has got. The handler is an \<open>async\<close> function with no \<open>try\<close>
  around line 220: when \<open>new URL\<close> throws, nothing is sent, the promise of the handler
  is rejected with nobody to handle it, and Node (version 18 in the Dockerfile) ends the
  process (\<open>Crashed\<close>). \<open>Rejected\<close> is one of the three early \<open>return\<close>s, with what
  was sent. \<open>Pending\<close> is the handler waiting at the \<open>await\<close>s of lines 254 and 264 for
  the runtime, with the container id it asked for and the session id of the token; no
  listener is registered on the socket yet. \<open>AttachFailed\<close> is the \<open>catch\<close> block, with
  what was sent. \<open>Streaming\<close> is the end of the \<open>try\<close> block: the stream of the
  container is attached and the listeners of lines 271 to 387 are registered.
\<close>

datatype conn_outcome =
    Crashed
  | Rejected "ws_action list"
  | Pending string string
  | AttachFailed string "ws_action list"
  | Streaming string string

text \<open>Lines 218 to 254, up to the first \<open>await\<close>. \<open>!token\<close> holds for no token and for an empty one.\<close>

definition connection_start :: "config \<Rightarrow> int \<Rightarrow> registry \<Rightarrow> ws_request \<Rightarrow> conn_outcome" where
  "connection_start cfg now activeSessions req =
     (if \<not> url_parses req then Crashed
      else
        (case token_param req of
           None \<Rightarrow> Rejected [Send (ErrorFrame ''No token provided''), Close]
         | Some tok \<Rightarrow>
             if tok = NotAToken [] then
               Rejected [Send (ErrorFrame ''No token provided''), Close]
             else
               (case verifyToken cfg now tok of
                  None \<Rightarrow> Rejected [Send (ErrorFrame ''Invalid or expired token''), Close]
                | Some decoded \<Rightarrow>
                    (case activeSessions (claim_sessionId decoded) of
                       None \<Rightarrow>
                         Rejected [Send (ErrorFrame ''Session not found or expired''), Close]
                     | Some sessionInfo \<Rightarrow>
                         Pending (containerId sessionInfo) (claim_sessionId decoded)))))"

text \<open>
  Lines 254 to 395, from the moment the runtime answers. \<open>attach\<close> is the result of
  \<open>docker.getContainer(id).exec(...)\<close> followed by \<open>exec.start(...)\<close>, \<open>Inl\<close> with the
  message of the error when either is rejected; \<open>ws_open\<close> is the value of
  \<open>ws.readyState === WebSocket.OPEN\<close> at that moment.
\<close>

definition connection_finish :: "string + unit \<Rightarrow> bool \<Rightarrow> string \<Rightarrow> string \<Rightarrow> conn_outcome" where
  "connection_finish attach ws_open cid sessionId =
     (case attach of
        Inl message \<Rightarrow>
          AttachFailed cid (if ws_open then [Send (ErrorFrame message), Close] else [])
      | Inr stream \<Rightarrow> Streaming cid sessionId)"

text \<open>
  The handler from beginning to end, for a runtime that answers \<open>runtime_attach id\<close>
  and a socket that is open or not (\<open>ws_open_in_catch\<close>) when it does.
\<close>

record conn_env =
  runtime_attach :: "string \<Rightarrow> string + unit"
  ws_open_in_catch :: bool

definition on_connection :: "config \<Rightarrow> int \<Rightarrow> registry \<Rightarrow> ws_request \<Rightarrow> conn_env \<Rightarrow> conn_outcome" where
  "on_connection cfg now activeSessions req env =
     (case connection_start cfg now activeSessions req of
        Pending cid sessionId \<Rightarrow>
          connection_finish (runtime_attach env cid) (ws_open_in_catch env) cid sessionId
      | out \<Rightarrow> out)"

subsection \<open>The handlers of an attached connection, lines 346 to 387\<close>

text \<open>
  \<open>Map.prototype.delete\<close>: the map without the key, and whether an entry was removed
  (the value the call returns).
\<close>

definition Map_delete :: "string \<Rightarrow> registry \<Rightarrow> bool \<times> registry" where
  "Map_delete key m = (m key \<noteq> None, m(key := None))"

text \<open>
  The state the handlers of one attached connection read and write: the socket's
  \<open>readyState\<close>, what has been done on the socket (oldest first), how often
  \<open>stream.end()\<close> has been called, the session map, and how many calls of
  \<open>activeSessions.delete\<close> have removed an entry.
\<close>

datatype readyState = OPEN | CLOSING | CLOSED

record bridge =
  ws_readyState :: readyState
  ws_log :: "ws_action list"
  stream_end_calls :: nat
  sessions :: registry
  deleted :: nat

text \<open>
  \<open>ws.send\<close>, \<open>ws.close()\<close> on an open socket (the closing handshake starts) and
  \<open>stream.end()\<close> (end of input for the process; calling it again does nothing more).
\<close>

definition ws_send :: "frame \<Rightarrow> bridge \<Rightarrow> bridge" where
  "ws_send f b = b\<lparr> ws_log := ws_log b @ [Send f] \<rparr>"

definition ws_close :: "bridge \<Rightarrow> bridge" where
  "ws_close b = b\<lparr> ws_readyState := CLOSING, ws_log := ws_log b @ [Close] \<rparr>"

definition stream_end :: "bridge \<Rightarrow> bridge" where
  "stream_end b = b\<lparr> stream_end_calls := stream_end_calls b + 1 \<rparr>"

text \<open>Lines 347 to 358; the chunk stands for its base64 text.\<close>

definition stream_on_data :: "string \<Rightarrow> bridge \<Rightarrow> bridge" where
  "stream_on_data chunk b =
     (if ws_readyState b = OPEN then ws_send (DataFrame chunk) b else b)"

text \<open>Lines 361 to 366.\<close>

definition stream_on_end :: "bridge \<Rightarrow> bridge" where
  "stream_on_end b = (if ws_readyState b = OPEN then ws_close b else b)"

text \<open>Lines 369 to 373.\<close>

definition ws_on_close :: "string \<Rightarrow> bridge \<Rightarrow> bridge" where
  "ws_on_close sessionId b =
     (let b1 = stream_end b;
          (removed, m) = Map_delete sessionId (sessions b1)
      in b1\<lparr> sessions := m, deleted := deleted b1 + (if removed then 1 else 0) \<rparr>)"

text \<open>Lines 376 to 382.\<close>

definition stream_on_error :: "string \<Rightarrow> bridge \<Rightarrow> bridge" where
  "stream_on_error message b =
     (if ws_readyState b = OPEN then ws_close (ws_send (ErrorFrame message) b) else b)"

text \<open>Lines 384 to 387.\<close>

definition ws_on_error :: "bridge \<Rightarrow> bridge" where
  "ws_on_error b = stream_end b"

text \<open>
  The four events that end a connection, and what happens when one fires. The \<open>ws\<close>
  package emits \<open>'close'\<close> with \<open>readyState\<close> already \<open>CLOSED\<close>, and emits \<open>'error'\<close>
  on an established socket after it has begun to close it; both are written into
  \<open>fire\<close>. A list of triggers is any order and any number of firings, the \<open>'close'\<close>
  handler running more than once included.
\<close>

datatype trigger =
    StreamEnd
  | StreamError string
  | WsCloseEvent
  | WsErrorEvent

fun fire :: "string \<Rightarrow> trigger \<Rightarrow> bridge \<Rightarrow> bridge" where
  "fire sessionId StreamEnd b = stream_on_end b"
| "fire sessionId (StreamError message) b = stream_on_error message b"
| "fire sessionId WsCloseEvent b = ws_on_close sessionId (b\<lparr> ws_readyState := CLOSED \<rparr>)"
| "fire sessionId WsErrorEvent b =
     ws_on_error (if ws_readyState b = OPEN then b\<lparr> ws_readyState := CLOSING \<rparr> else b)"

text \<open>
  A socket that is closing gets its \<open>'close'\<close> event from the \<open>ws\<close> package (at the
  latest when the close timer runs out): \<open>settle\<close> delivers the event that is still due.
\<close>

definition settle :: "string \<Rightarrow> bridge \<Rightarrow> bridge" where
  "settle sessionId b =
     (if ws_readyState b = CLOSING then fire sessionId WsCloseEvent b else b)"

definition teardown :: "string \<Rightarrow> trigger list \<Rightarrow> bridge \<Rightarrow> bridge" where
  "teardown sessionId evs b = settle sessionId (fold (fire sessionId) evs b)"

text \<open>
  The relation between the state a connection started from and a later one that the
  handlers keep: the session map and the count of deletions are untouched until the
  socket is \<open>CLOSED\<close>, and from then on the session is gone and counted once.
\<close>

definition torn_down :: "string \<Rightarrow> bridge \<Rightarrow> bridge \<Rightarrow> bool" where
  "torn_down sid b0 b \<longleftrightarrow>
     (if ws_readyState b = CLOSED
      then sessions b = (sessions b0)(sid := None) \<and>
           deleted b = deleted b0 + (if sessions b0 sid = None then 0 else 1)
      else sessions b = sessions b0 \<and> deleted b = deleted b0)"

subsection \<open>The gateway as a whole\<close>

text \<open>
  The handlers share \<open>activeSessions\<close>, and the connection handler is suspended at its
  \<open>await\<close>s while other events are handled. A run of the server is a list of events:
  a \<open>/getaccess\<close> request; the arrival of a WebSocket connection (lines 218 to 254);
  the answer of the runtime to a connection that is waiting for it (lines 254 to 395);
  and one of the four events of a socket or of its stream. Connections are numbered in
  order of arrival.

  Each connection has its socket: the \<open>readyState\<close>, what was sent on it, and how often
  \<open>stream.end()\<close> was called for it. An event of the socket of a connection that is
  \<open>Streaming\<close> runs the listener of lines 361 to 387 for it. For any other connection
  no listener is registered, so the event only changes the \<open>readyState\<close>; in particular
  the \<open>'close'\<close> event of a socket that the client closes while the handler is waiting
  for the runtime runs nothing. A socket emits \<open>'close'\<close> once and nothing after it:
  an event of a socket that is \<open>CLOSED\<close> does not occur. Events of a stream occur only
  once the stream is attached. When a connection ends the process (\<open>Crashed\<close>), no
  later event is handled: the server is gone, and the session map with it.
\<close>

datatype gw_event =
    Access "string option" access_env
  | Connect ws_request int
  | AttachDone nat "string + unit"
  | SocketEvent nat trigger

record conn =
  c_outcome :: conn_outcome
  c_ready :: readyState
  c_log :: "ws_action list"
  c_end_calls :: nat

record gateway =
  gw_alive :: bool
  gw_sessions :: registry
  gw_deleted :: nat
  gw_responses :: "response list"
  gw_conns :: "conn list"

text \<open>What a connection has sent when it stops before the \<open>try\<close> block or in the \<open>catch\<close>.\<close>

fun outcome_actions :: "conn_outcome \<Rightarrow> ws_action list" where
  "outcome_actions (Rejected acts) = acts"
| "outcome_actions (AttachFailed cid acts) = acts"
| "outcome_actions out = []"

text \<open>The socket after the handler has called \<open>ws.close()\<close> on it, if it has.\<close>

definition after_actions :: "ws_action list \<Rightarrow> readyState \<Rightarrow> readyState" where
  "after_actions acts r = (if Close \<in> set acts \<and> r = OPEN then CLOSING else r)"

definition new_conn :: "conn_outcome \<Rightarrow> conn" where
  "new_conn out =
     \<lparr> c_outcome = out, c_ready = after_actions (outcome_actions out) OPEN,
       c_log = outcome_actions out, c_end_calls = 0 \<rparr>"

text \<open>The state the listeners of one streaming connection work on, and back.\<close>

definition bridge_of :: "gateway \<Rightarrow> conn \<Rightarrow> bridge" where
  "bridge_of g c =
     \<lparr> ws_readyState = c_ready c, ws_log = c_log c, stream_end_calls = c_end_calls c,
       sessions = gw_sessions g, deleted = gw_deleted g \<rparr>"

definition put_bridge :: "nat \<Rightarrow> bridge \<Rightarrow> gateway \<Rightarrow> gateway" where
  "put_bridge i b g =
     g\<lparr> gw_sessions := sessions b, gw_deleted := deleted b,
        gw_conns := (gw_conns g)[i := (gw_conns g ! i)\<lparr> c_ready := ws_readyState b,
                                   c_log := ws_log b, c_end_calls := stream_end_calls b \<rparr>] \<rparr>"

fun is_ws_event :: "trigger \<Rightarrow> bool" where
  "is_ws_event WsCloseEvent = True"
| "is_ws_event WsErrorEvent = True"
| "is_ws_event t = False"

text \<open>An event of a socket that has no listener.\<close>

fun unheard :: "trigger \<Rightarrow> readyState \<Rightarrow> readyState" where
  "unheard WsCloseEvent r = CLOSED"
| "unheard WsErrorEvent r = (if r = OPEN then CLOSING else r)"
| "unheard t r = r"

definition socket_event :: "nat \<Rightarrow> trigger \<Rightarrow> gateway \<Rightarrow> gateway" where
  "socket_event i t g =
     (let c = gw_conns g ! i in
      if is_ws_event t \<and> c_ready c = CLOSED then g
      else
        (case c_outcome c of
           Streaming cid sessionId \<Rightarrow> put_bridge i (fire sessionId t (bridge_of g c)) g
         | _ \<Rightarrow>
             if is_ws_event t
             then g\<lparr> gw_conns := (gw_conns g)[i := c\<lparr> c_ready := unheard t (c_ready c) \<rparr>] \<rparr>
             else g))"

definition attach_done :: "nat \<Rightarrow> string + unit \<Rightarrow> gateway \<Rightarrow> gateway" where
  "attach_done i attach g =
     (let c = gw_conns g ! i in
      case c_outcome c of
        Pending cid sessionId \<Rightarrow>
          (let out = connection_finish attach (c_ready c = OPEN) cid sessionId
           in g\<lparr> gw_conns := (gw_conns g)[i := c\<lparr> c_outcome := out,
                   c_ready := after_actions (outcome_actions out) (c_ready c),
                   c_log := c_log c @ outcome_actions out \<rparr>] \<rparr>)
      | _ \<Rightarrow> g)"

fun gw_event_step :: "config \<Rightarrow> gw_event \<Rightarrow> gateway \<Rightarrow> gateway" where
  "gw_event_step cfg (Access query env) g =
     (let (res, m) = getaccess cfg env query (gw_sessions g)
      in g\<lparr> gw_sessions := m, gw_responses := gw_responses g @ [res] \<rparr>)"
| "gw_event_step cfg (Connect req now) g =
     (let out = connection_start cfg now (gw_sessions g) req
      in g\<lparr> gw_alive := (out \<noteq> Crashed), gw_conns := gw_conns g @ [new_conn out] \<rparr>)"
| "gw_event_step cfg (AttachDone i attach) g =
     (if i < length (gw_conns g) then attach_done i attach g else g)"
| "gw_event_step cfg (SocketEvent i t) g =
     (if i < length (gw_conns g) then socket_event i t g else g)"

definition gw_step :: "config \<Rightarrow> gw_event \<Rightarrow> gateway \<Rightarrow> gateway" where
  "gw_step cfg ev g = (if gw_alive g then gw_event_step cfg ev g else g)"

definition gw_run :: "config \<Rightarrow> gw_event list \<Rightarrow> gateway \<Rightarrow> gateway" where
  "gw_run cfg evs g = fold (gw_step cfg) evs g"

definition gw_start :: gateway where
  "gw_start =
     \<lparr> gw_alive = True, gw_sessions = Map.empty, gw_deleted = 0, gw_responses = [],
       gw_conns = [] \<rparr>"

text \<open>Whether an event is a \<open>/getaccess\<close> request for which \<open>uuidv4()\<close> returns the given id.\<close>

fun draws_uuid :: "string \<Rightarrow> gw_event \<Rightarrow> bool" where
  "draws_uuid sid (Access query env) = (uuid env = sid)"
| "draws_uuid sid ev = False"

subsection \<open>Sample data\<close>

text \<open>
  A configuration, a listing with the three test containers of the README, requests,
  and the values of \<open>JSON.parse\<close> and of the string conversion on sample frames; the
  concrete instances below are computed on them.
\<close>

definition sample_cfg :: config where
  "sample_cfg = \<lparr> JWT_SECRET = ''s3cret'', TOKEN_EXPIRY = 300 \<rparr>"

definition long_cfg :: config where
  "long_cfg = \<lparr> JWT_SECRET = ''s3cret'', TOKEN_EXPIRY = 3600 \<rparr>"

definition sample_containers :: "container list" where
  "sample_containers =
     [\<lparr> c_Id = ''1f00aa'', c_Names = [''/test-ubuntu''], c_State = ''exited'' \<rparr>,
      \<lparr> c_Id = ''2e11bb'', c_Names = [''/test-alpine''], c_State = ''running'' \<rparr>,
      \<lparr> c_Id = ''3d22cc'', c_Names = [''/test-nginx''], c_State = ''running'' \<rparr>]"

definition sample_env :: "string \<Rightarrow> int \<Rightarrow> access_env" where
  "sample_env sid t =
     \<lparr> listing = Inr sample_containers, uuid = sid, t_sign = t, t_created = t, t_sweep = t \<rparr>"

text \<open>A request whose URL parses, and one (target \<open>//?token=...\<close>) whose URL does not.\<close>

definition with_token :: "token \<Rightarrow> ws_request" where
  "with_token tok = \<lparr> url_parses = True, token_param = Some tok \<rparr>"

definition bad_target :: "token \<Rightarrow> ws_request" where
  "bad_target tok = \<lparr> url_parses = False, token_param = Some tok \<rparr>"

definition good_runtime :: conn_env where
  "good_runtime = \<lparr> runtime_attach = (\<lambda>cid. Inr ()), ws_open_in_catch = True \<rparr>"

definition bad_runtime :: conn_env where
  "bad_runtime =
     \<lparr> runtime_attach = (\<lambda>cid. Inl ''connect ENOENT /var/run/docker.sock''),
       ws_open_in_catch = True \<rparr>"

definition JSON_parse_samples :: json_parser where
  "JSON_parse_samples text =
     map_of
       [(''{\"Width\":80,\"Height\":24}'',
           [(''Width'', JNum (Fin 80)), (''Height'', JNum (Fin 24))]),
        (''{\"width\":80,\"height\":24}'',
           [(''width'', JNum (Fin 80)), (''height'', JNum (Fin 24))]),
        (''{\"w\":80,\"h\":24}'', [(''w'', JNum (Fin 80)), (''h'', JNum (Fin 24))]),
        (''{\"Width\":0,\"Height\":24}'',
           [(''Width'', JNum (Fin 0)), (''Height'', JNum (Fin 24))]),
        (''{\"Width\":{\"toString\":1},\"Height\":24}'',
           [(''Width'', JObj [(''toString'', JNum (Fin 1))]), (''Height'', JNum (Fin 24))])]
       text"

text \<open>
  The string conversion without the limit of the stack: an array is joined from the
  conversions of its elements, an object is converted by \<open>Object.prototype.toString\<close>
  unless it has a member \<open>toString\<close>, which is not callable and leaves \<open>valueOf\<close>,
  which returns the object.
\<close>

fun ToString_returns :: "json \<Rightarrow> bool" where
  "ToString_returns (JArr xs) = (\<forall>x \<in> set xs. ToString_returns x)"
| "ToString_returns (JObj ms) = (map_of ms ''toString'' = None)"
| "ToString_returns v = True"

section \<open>Auxiliary facts\<close>

lemmas sample_simps = is_corruption_def is_high_byte_def hasControlSeq_def matches_numeric_def
  split_rows_def split_cols_def Number_digits_def decimal_value_def round_to_double_def
  is_digit_def byte_val_def json_gate_def

lemmas parse_simps = JSON_parse_samples_def resize_rows_def resize_cols_def js_or_def
  get_prop_def template_ok_def

lemmas run_simps = gw_run_def gw_step_def gw_start_def getaccess_def Let_def sample_env_def
  sample_containers_def matches_def sample_cfg_def long_cfg_def generateToken_def jwt_sign_def
  verifyToken_def jwt_verify_def connection_start_def connection_finish_def on_connection_def
  with_token_def bad_target_def good_runtime_def bad_runtime_def sweep_def Map_delete_def
  new_conn_def after_actions_def attach_done_def socket_event_def bridge_of_def put_bridge_def

lemmas handler_simps = stream_on_end_def stream_on_error_def ws_on_close_def ws_on_error_def
  ws_close_def ws_send_def stream_end_def Map_delete_def Let_def

lemma truthy_Some: "truthy x \<Longrightarrow> \<exists>v. x = Some v"
  by (cases x) auto

lemma find_first_None_iff: "find_first p xs = None \<longleftrightarrow> (\<forall>x \<in> set xs. \<not> p x)"
  by (induction xs) auto

lemma find_first_Some: "find_first p xs = Some x \<Longrightarrow> x \<in> set xs \<and> p x"
  by (induction xs) (auto split: if_splits)

subsection \<open>Strings\<close>

lemma startsWith_iff: "startsWith s p \<longleftrightarrow> (\<exists>r. s = p @ r)"
  by (induction s p rule: startsWith.induct) auto

lemma includes_str_iff: "includes_str s p \<longleftrightarrow> (\<exists>a b. s = a @ p @ b)"
proof (induction s)
  case Nil
  then show ?case by auto
next
  case (Cons c cs)
  show ?case
  proof
    assume "includes_str (c # cs) p"
    then consider "startsWith (c # cs) p" | "includes_str cs p" by auto
    then show "\<exists>a b. c # cs = a @ p @ b"
    proof cases
      case 1
      then obtain r where "c # cs = p @ r" by (auto simp: startsWith_iff)
      then have "c # cs = [] @ p @ r" by simp
      then show ?thesis by blast
    next
      case 2
      then obtain a b where "cs = a @ p @ b" using Cons.IH by blast
      then have "c # cs = (c # a) @ p @ b" by simp
      then show ?thesis by blast
    qed
  next
    assume "\<exists>a b. c # cs = a @ p @ b"
    then obtain a b where e: "c # cs = a @ p @ b" by blast
    show "includes_str (c # cs) p"
    proof (cases a)
      case Nil
      with e have "startsWith (c # cs) p" by (auto simp: startsWith_iff)
      then show ?thesis by simp
    next
      case (Cons x a')
      with e have "cs = a' @ p @ b" by simp
      then have "includes_str cs p" using Cons.IH by blast
      then show ?thesis by simp
    qed
  qed
qed

subsection \<open>The tests of the handler and the rules of the specification\<close>

lemma all_digits_iff: "all_digits s \<longleftrightarrow> (\<forall>c \<in> set s. is_digit c)"
  by (induction s) auto

lemma byte_val_eq_iff: "byte_val c = of_char k \<longleftrightarrow> c = k"
  by (simp add: byte_val_def)

lemma is_digit_spec: "is_digit c \<longleftrightarrow> c \<in> set ''0123456789''"
proof
  assume "c \<in> set ''0123456789''"
  then show "is_digit c" by (auto simp: is_digit_def byte_val_def)
next
  assume d: "is_digit c"
  then have "byte_val c = 48 \<or> byte_val c = 49 \<or> byte_val c = 50 \<or> byte_val c = 51 \<or>
    byte_val c = 52 \<or> byte_val c = 53 \<or> byte_val c = 54 \<or> byte_val c = 55 \<or>
    byte_val c = 56 \<or> byte_val c = 57"
    unfolding is_digit_def by arith
  then have "byte_val c = of_char CHR ''0'' \<or> byte_val c = of_char CHR ''1'' \<or>
    byte_val c = of_char CHR ''2'' \<or> byte_val c = of_char CHR ''3'' \<or>
    byte_val c = of_char CHR ''4'' \<or> byte_val c = of_char CHR ''5'' \<or>
    byte_val c = of_char CHR ''6'' \<or> byte_val c = of_char CHR ''7'' \<or>
    byte_val c = of_char CHR ''8'' \<or> byte_val c = of_char CHR ''9''"
    by simp
  then show "c \<in> set ''0123456789''"
    unfolding byte_val_eq_iff by auto
qed

lemma spec_digits_iff: "spec_digits s \<longleftrightarrow> s \<noteq> [] \<and> (\<forall>c \<in> set s. is_digit c)"
proof -
  have "set s \<subseteq> set ''0123456789'' \<longleftrightarrow> (\<forall>c \<in> set s. is_digit c)"
    using is_digit_spec by blast
  then show ?thesis by (simp only: spec_digits_def)
qed

lemma take4_iff: "take 4 d = [w, x, y, z] \<longleftrightarrow> (\<exists>r. d = w # x # y # z # r)"
proof
  assume t: "take 4 d = [w, x, y, z]"
  from append_take_drop_id [of 4 d] t have "[w, x, y, z] @ drop 4 d = d" by simp
  then have "d = w # x # y # z # drop 4 d" by simp
  then show "\<exists>r. d = w # x # y # z # r" ..
next
  assume "\<exists>r. d = w # x # y # z # r"
  then show "take 4 d = [w, x, y, z]" by auto
qed

lemma is_corruption_spec: "is_corruption d \<longleftrightarrow> spec_corruption d"
proof
  assume "spec_corruption d"
  then obtain r where "d = CHR 0xCD # CHR 0xE4 # CHR 0xD3 # CHR 0x63 # r"
    unfolding spec_corruption_def take4_iff by blast
  then show "is_corruption d" by (simp add: is_corruption_def byte_val_def)
next
  assume c: "is_corruption d"
  then have "4 \<le> length d" by (simp add: is_corruption_def)
  then obtain w x y z r where d: "d = w # x # y # z # r"
    by (auto simp: eval_nat_numeral Suc_le_length_iff)
  have "byte_val w = of_char (CHR 0xCD)" "byte_val x = of_char (CHR 0xE4)"
    "byte_val y = of_char (CHR 0xD3)" "byte_val z = of_char (CHR 0x63)"
    using c unfolding d by (simp_all add: is_corruption_def)
  then have "w = CHR 0xCD" "x = CHR 0xE4" "y = CHR 0xD3" "z = CHR 0x63"
    unfolding byte_val_eq_iff by simp_all
  then show "spec_corruption d" unfolding d by (simp add: spec_corruption_def)
qed

lemma includes_byte_iff: "includes_byte d v \<longleftrightarrow> (\<exists>c \<in> set d. byte_val c = v)"
  by (induction d) auto

lemma hasControlSeq_spec: "hasControlSeq d \<longleftrightarrow> spec_escape d"
proof -
  have "includes_byte d 0x1B \<longleftrightarrow> (\<exists>c \<in> set d. byte_val c = of_char (CHR 0x1B))"
    by (simp add: includes_byte_iff)
  moreover have "includes_byte d 0x5D \<longleftrightarrow> (\<exists>c \<in> set d. byte_val c = of_char (CHR 0x5D))"
    by (simp add: includes_byte_iff)
  ultimately show ?thesis
    unfolding hasControlSeq_def spec_escape_def byte_val_eq_iff by blast
qed

lemma is_high_byte_spec: "is_high_byte d \<longleftrightarrow> spec_high_byte d"
  by (cases d) (auto simp: is_high_byte_def spec_high_byte_def byte_val_def)

lemma matches_numeric_spec: "matches_numeric d \<longleftrightarrow> spec_numeric d"
proof
  assume m: "matches_numeric d"
  let ?a = "takeWhile is_digit d"
  from m obtain b where r: "dropWhile is_digit d = CHR '','' # b" and a: "?a \<noteq> []"
    and b: "b \<noteq> []" "all_digits b"
    by (auto simp: matches_numeric_def Let_def split: list.splits)
  have "d = ?a @ '','' @ b" using r takeWhile_dropWhile_id [of is_digit d] by simp
  moreover have "spec_digits ?a" using a by (auto simp: spec_digits_iff dest: set_takeWhileD)
  moreover have "spec_digits b" using b by (simp add: spec_digits_iff all_digits_iff)
  ultimately show "spec_numeric d" unfolding spec_numeric_def by blast
next
  assume "spec_numeric d"
  then obtain a b where d: "d = a @ '','' @ b" and a: "spec_digits a" and b: "spec_digits b"
    unfolding spec_numeric_def by blast
  have nd: "\<not> is_digit CHR '',''" by (simp add: is_digit_def byte_val_def)
  have ad: "\<forall>c \<in> set a. is_digit c" using a by (simp add: spec_digits_iff)
  have t: "takeWhile is_digit d = a" unfolding d using ad nd by (simp add: takeWhile_tail)
  have r: "dropWhile is_digit d = CHR '','' # b" unfolding d using ad nd
    by (simp add: dropWhile_append2)
  show "matches_numeric d"
    using a b by (simp add: matches_numeric_def t r spec_digits_iff all_digits_iff)
qed

lemma numeric_split:
  assumes "spec_digits a"
  shows "split_cols (a @ '','' @ b) = Number_digits a"
    and "split_rows (a @ '','' @ b) = Number_digits b"
proof -
  have nd: "\<not> is_digit CHR '',''" by (simp add: is_digit_def byte_val_def)
  have ad: "\<forall>c \<in> set a. is_digit c" using assms by (simp add: spec_digits_iff)
  show "split_cols (a @ '','' @ b) = Number_digits a"
    using ad nd by (simp add: split_cols_def takeWhile_tail)
  show "split_rows (a @ '','' @ b) = Number_digits b"
    using ad nd by (simp add: split_rows_def dropWhile_append2)
qed

lemmas spec_rules = is_corruption_spec is_high_byte_spec hasControlSeq_spec matches_numeric_spec

subsection \<open>The conversion of \<open>Number\<close>\<close>

lemma bitlen_range: "2 ^ k \<le> n \<Longrightarrow> n < 2 ^ Suc k \<Longrightarrow> bitlen n = Suc k"
proof (induction k arbitrary: n)
  case 0
  then have "n = Suc 0" by simp
  then show ?case by (simp add: bitlen.simps [of "Suc 0"] bitlen.simps [of 0])
next
  case (Suc k)
  have "2 ^ k \<le> n div 2" using Suc.prems(1) by simp
  moreover have "n div 2 < 2 ^ Suc k" using Suc.prems(2) by simp
  ultimately have "bitlen (n div 2) = Suc k" by (rule Suc.IH)
  moreover have "(0::nat) < 2 ^ Suc k" by simp
  then have "n \<noteq> 0" using Suc.prems(1) by linarith
  ultimately show ?case by (simp add: bitlen.simps [of n])
qed

text \<open>The first integer that is not a double: \<open>2^53 + 1\<close> is halfway and goes to the even side.\<close>

lemma round_to_double_example: "round_to_double 9007199254740993 = Fin 9007199254740992"
proof -
  have "bitlen 9007199254740993 = Suc 53"
    by (rule bitlen_range) simp_all
  then show ?thesis
    by (simp add: round_to_double_def Let_def)
qed

lemma Number_digits_example: "Number_digits ''9007199254740993'' = Fin 9007199254740992"
proof -
  have "decimal_value ''9007199254740993'' = 9007199254740993"
    by (simp add: decimal_value_def byte_val_def)
  then show ?thesis by (simp add: Number_digits_def round_to_double_example)
qed

subsection \<open>The sweep\<close>

lemma sweep_None: "m k = None \<Longrightarrow> sweep t m k = None"
  by (simp add: sweep_def)

lemma sweep_keeps: "m k = Some s \<Longrightarrow> \<not> createdAt s < t \<Longrightarrow> sweep t m k = Some s"
  by (simp add: sweep_def)

lemma sweep_evicts: "m k = Some s \<Longrightarrow> createdAt s < t \<Longrightarrow> sweep t m k = None"
  by (simp add: sweep_def)

subsection \<open>Tokens\<close>

text \<open>A token of \<open>generateToken\<close> verifies, until its expiry, to the claims it was given.\<close>

lemma verify_sign:
  "now div 1000 < t div 1000 + int (TOKEN_EXPIRY cfg) \<Longrightarrow>
   verifyToken cfg now (generateToken cfg t name sid) =
     Some \<lparr> claim_containerName = name, claim_sessionId = sid,
            claim_type = ''terminal-access'', claim_iat = t div 1000,
            claim_exp = t div 1000 + int (TOKEN_EXPIRY cfg) \<rparr>"
  by (simp add: verifyToken_def generateToken_def jwt_sign_def jwt_verify_def)

lemma verifyToken_Some_not_empty: "verifyToken cfg now tok = Some d \<Longrightarrow> tok \<noteq> NotAToken []"
  by (auto simp: verifyToken_def jwt_verify_def)

text \<open>The claims a token verifies to do not depend on when it is verified.\<close>

lemma verifyToken_same:
  "verifyToken cfg now tok = Some d \<Longrightarrow> verifyToken cfg now' tok = Some d' \<Longrightarrow> d = d'"
  by (auto simp: verifyToken_def jwt_verify_def split: token.splits if_splits)

subsection \<open>Requests and connections\<close>

lemma getaccess_failure_keeps:
  "getaccess cfg env q reg = (Failure code msg, reg') \<Longrightarrow> reg' = reg"
  by (auto simp: getaccess_def Let_def split: option.splits if_splits sum.splits)

lemma getaccess_other_None:
  "reg sid = None \<Longrightarrow> uuid env \<noteq> sid \<Longrightarrow> snd (getaccess cfg env q reg) sid = None"
  by (auto simp: getaccess_def Let_def sweep_def split: option.splits if_splits sum.splits)

text \<open>
  For a request whose URL parses: a token that does not verify, and a token that
  verifies to a session id the map does not hold, end the handler in an early
  \<open>return\<close>, with one error frame and the close.
\<close>

lemma connection_with_failing_token:
  assumes "url_parses req" and "token_param req = Some tok"
    and "jwt_verify tok (JWT_SECRET cfg) now = Inl e"
  shows "verifyToken cfg now tok = None \<and>
         connection_start cfg now reg req =
           Rejected [Send (ErrorFrame (if tok = NotAToken [] then ''No token provided''
                                       else ''Invalid or expired token'')), Close]"
  using assms by (simp add: verifyToken_def connection_start_def)

lemma connection_without_session:
  assumes "url_parses req" and "token_param req = Some tok"
    and "verifyToken cfg now tok = Some decoded"
    and "reg (claim_sessionId decoded) = None"
  shows "connection_start cfg now reg req =
           Rejected [Send (ErrorFrame ''Session not found or expired''), Close]"
  using assms verifyToken_Some_not_empty [OF assms(3)]
  by (simp add: connection_start_def)

text \<open>A request whose URL does not parse ends the process, whatever token it carries.\<close>

lemma connection_bad_url: "\<not> url_parses req \<Longrightarrow> connection_start cfg now reg req = Crashed"
  by (simp add: connection_start_def)

subsection \<open>Teardown\<close>

lemma fire_sessions:
  "sessions (fire sid t b) = sessions b \<or> sessions (fire sid t b) = (sessions b)(sid := None)"
  by (cases t) (auto simp: handler_simps split: if_splits)

lemma fire_keeps_absent: "sessions b k = None \<Longrightarrow> sessions (fire sid t b) k = None"
  using fire_sessions [of sid t b] by auto

lemma fire_torn_down: "torn_down sid b0 b \<Longrightarrow> torn_down sid b0 (fire sid t b)"
  by (cases t) (auto simp: torn_down_def handler_simps split: if_splits)

lemma fold_fire_torn_down: "torn_down sid b0 b \<Longrightarrow> torn_down sid b0 (fold (fire sid) evs b)"
  by (induction evs arbitrary: b) (simp_all add: fire_torn_down)

lemma fire_not_open: "ws_readyState (fire sid t b) \<noteq> OPEN"
  by (cases t) (auto simp: handler_simps split: if_splits prod.splits)

lemma fold_fire_not_open:
  "ws_readyState b \<noteq> OPEN \<Longrightarrow> ws_readyState (fold (fire sid) evs b) \<noteq> OPEN"
proof (induction evs arbitrary: b)
  case Nil
  then show ?case by simp
next
  case (Cons t evs)
  have "ws_readyState (fire sid t b) \<noteq> OPEN" by (rule fire_not_open)
  then show ?case using Cons.IH by simp
qed

lemma settle_closed: "ws_readyState b \<noteq> OPEN \<Longrightarrow> ws_readyState (settle sid b) = CLOSED"
  by (cases "ws_readyState b") (auto simp: settle_def handler_simps)

lemma settle_torn_down: "torn_down sid b0 b \<Longrightarrow> torn_down sid b0 (settle sid b)"
  unfolding settle_def by (simp add: fire_torn_down del: fire.simps)

text \<open>
  The listeners of a connection whose socket was open and whose session was in the map
  when they were registered: any non-empty list of termination events, followed by the
  \<open>'close'\<close> event that is still due, removes the session, and exactly one call of
  \<open>activeSessions.delete\<close> removes an entry.
\<close>

lemma teardown_from_open:
  assumes "ws_readyState b = OPEN" and "sessions b sid = Some s" and "evs \<noteq> []"
  shows "ws_readyState (teardown sid evs b) = CLOSED \<and>
         sessions (teardown sid evs b) = (sessions b)(sid := None) \<and>
         deleted (teardown sid evs b) = deleted b + 1"
proof -
  obtain t ts where evs: "evs = t # ts" using assms(3) by (cases evs) auto
  have start: "torn_down sid b b" using assms(1) by (simp add: torn_down_def)
  have "ws_readyState (fold (fire sid) evs b) \<noteq> OPEN"
    unfolding evs using fold_fire_not_open [OF fire_not_open] by simp
  then have closed: "ws_readyState (teardown sid evs b) = CLOSED"
    unfolding teardown_def by (rule settle_closed)
  have "torn_down sid b (teardown sid evs b)"
    unfolding teardown_def by (intro settle_torn_down fold_fire_torn_down start)
  with closed assms(2) show ?thesis
    by (simp add: torn_down_def)
qed

subsection \<open>The gateway\<close>

lemma socket_event_keeps_absent:
  "gw_sessions g sid = None \<Longrightarrow> gw_sessions (socket_event i t g) sid = None"
  by (auto simp: socket_event_def put_bridge_def bridge_of_def Let_def fire_keeps_absent
      split: conn_outcome.splits)

lemma attach_done_sessions: "gw_sessions (attach_done i a g) = gw_sessions g"
  by (auto simp: attach_done_def Let_def split: conn_outcome.splits)

lemma gw_step_keeps_absent:
  assumes "gw_sessions g sid = None" and "\<not> draws_uuid sid ev"
  shows "gw_sessions (gw_step cfg ev g) sid = None"
proof (cases ev)
  case (Access q env)
  with assms getaccess_other_None [of "gw_sessions g" sid env cfg q]
  show ?thesis by (simp add: gw_step_def split_def Let_def)
next
  case (Connect req now)
  with assms show ?thesis by (simp add: gw_step_def Let_def)
next
  case (AttachDone i a)
  with assms show ?thesis by (simp add: gw_step_def attach_done_sessions)
next
  case (SocketEvent i t)
  with assms show ?thesis by (simp add: gw_step_def socket_event_keeps_absent)
qed

lemma gw_run_keeps_absent:
  "gw_sessions g sid = None \<Longrightarrow> \<forall>ev \<in> set evs. \<not> draws_uuid sid ev \<Longrightarrow>
   gw_sessions (gw_run cfg evs g) sid = None"
  unfolding gw_run_def
  by (induction evs arbitrary: g) (simp_all add: gw_step_keeps_absent)

text \<open>The \<open>'close'\<close> event of a streaming connection whose socket has not closed yet.\<close>

lemma close_event_deletes:
  assumes "gw_alive g" and "i < length (gw_conns g)"
    and "c_outcome (gw_conns g ! i) = Streaming cid sid"
    and "c_ready (gw_conns g ! i) \<noteq> CLOSED"
  shows "gw_sessions (gw_step cfg (SocketEvent i WsCloseEvent) g) sid = None"
  using assms
  by (simp add: gw_step_def socket_event_def put_bridge_def bridge_of_def handler_simps)

section \<open>The claims\<close>

subsection \<open>C1: reuse of a token\<close>

text \<open>
  The connection handler reads \<open>activeSessions\<close> and never writes it: a session is
  deleted only by the \<open>'close'\<close> listener of a streaming connection. So a token is not
  used up by connecting. In the run below a token is issued for \<open>alpine\<close> and presented
  twice; both connections attach a process stream of container \<open>2e11bb\<close>, and both
  sockets are open at the end.
\<close>

theorem token_reuse_counterexample:
  "gw_responses (gw_run sample_cfg
      [Access (Some ''alpine'') (sample_env ''sid-1'' 1000)] gw_start) =
     [Success \<lparr> d_token = generateToken sample_cfg 1000 ''alpine'' ''sid-1'',
                d_sessionId = ''sid-1'', d_containerName = ''alpine'',
                d_containerId = ''2e11bb'', d_expiresIn = 300 \<rparr>] \<and>
   map c_outcome (gw_conns (gw_run sample_cfg
      [Access (Some ''alpine'') (sample_env ''sid-1'' 1000),
       Connect (with_token (generateToken sample_cfg 1000 ''alpine'' ''sid-1'')) 2000,
       AttachDone 0 (Inr ()),
       Connect (with_token (generateToken sample_cfg 1000 ''alpine'' ''sid-1'')) 3000,
       AttachDone 1 (Inr ())]
      gw_start)) =
     [Streaming ''2e11bb'' ''sid-1'', Streaming ''2e11bb'' ''sid-1''] \<and>
   map c_ready (gw_conns (gw_run sample_cfg
      [Access (Some ''alpine'') (sample_env ''sid-1'' 1000),
       Connect (with_token (generateToken sample_cfg 1000 ''alpine'' ''sid-1'')) 2000,
       AttachDone 0 (Inr ()),
       Connect (with_token (generateToken sample_cfg 1000 ''alpine'' ''sid-1'')) 3000,
       AttachDone 1 (Inr ())]
      gw_start)) = [OPEN, OPEN]"
  by (simp add: run_simps)

text \<open>
  Claim C1, as the code has it. Take a connection that is streaming for a session (its
  listeners are registered) and whose socket has not closed yet, in a running server.
  Once the \<open>'close'\<close> event of that socket has been handled, and whatever events follow
  as long as no \<open>/getaccess\<close> request draws the same session id from \<open>uuidv4()\<close> again,
  a connection whose URL parses and which presents a token of that session is rejected
  in the handler's early \<open>return\<close>s: it is sent one error frame (\<open>Invalid or expired
  token\<close> when the token no longer verifies, \<open>Session not found or expired\<close> when it
  does), the socket is closed, and the runtime is not asked for a stream.
\<close>

theorem token_dead_after_close:
  assumes "gw_alive g" and "i < length (gw_conns g)"
    and "c_outcome (gw_conns g ! i) = Streaming cid sid"
    and "c_ready (gw_conns g ! i) \<noteq> CLOSED"
    and "\<forall>ev \<in> set evs. \<not> draws_uuid sid ev"
    and "verifyToken cfg now0 tok = Some decoded" and "claim_sessionId decoded = sid"
    and "url_parses req" and "token_param req = Some tok"
  shows "connection_start cfg now
           (gw_sessions (gw_run cfg evs (gw_step cfg (SocketEvent i WsCloseEvent) g))) req =
         Rejected [Send (ErrorFrame (if verifyToken cfg now tok = None
                                     then ''Invalid or expired token''
                                     else ''Session not found or expired'')), Close]"
proof -
  let ?reg = "gw_sessions (gw_run cfg evs (gw_step cfg (SocketEvent i WsCloseEvent) g))"
  have "gw_sessions (gw_step cfg (SocketEvent i WsCloseEvent) g) sid = None"
    using assms(1-4) by (rule close_event_deletes)
  then have gone: "?reg sid = None"
    using assms(5) by (rule gw_run_keeps_absent)
  have ne: "tok \<noteq> NotAToken []"
    using assms(6) by (rule verifyToken_Some_not_empty)
  show ?thesis
  proof (cases "verifyToken cfg now tok")
    case None
    with ne assms(8,9) show ?thesis by (simp add: connection_start_def)
  next
    case (Some d)
    then have "d = decoded" using assms(6) by (rule verifyToken_same)
    with Some gone assms(7) have "?reg (claim_sessionId d) = None" by simp
    with connection_without_session [OF assms(8,9) Some] Some show ?thesis by simp
  qed
qed

theorem token_dead_after_close_witness:
  "map c_outcome (gw_conns (gw_run sample_cfg
      [Access (Some ''alpine'') (sample_env ''sid-1'' 1000),
       Connect (with_token (generateToken sample_cfg 1000 ''alpine'' ''sid-1'')) 2000,
       AttachDone 0 (Inr ())]
      gw_start)) = [Streaming ''2e11bb'' ''sid-1''] \<and>
   connection_start sample_cfg 5000
     (gw_sessions (gw_run sample_cfg
        [Access (Some ''nginx'') (sample_env ''sid-2'' 4000)]
        (gw_step sample_cfg (SocketEvent 0 WsCloseEvent)
          (gw_run sample_cfg
            [Access (Some ''alpine'') (sample_env ''sid-1'' 1000),
             Connect (with_token (generateToken sample_cfg 1000 ''alpine'' ''sid-1'')) 2000,
             AttachDone 0 (Inr ())]
            gw_start))))
     (with_token (generateToken sample_cfg 1000 ''alpine'' ''sid-1'')) =
   Rejected [Send (ErrorFrame ''Session not found or expired''), Close]"
proof -
  let ?tok = "generateToken sample_cfg 1000 ''alpine'' ''sid-1''"
  let ?g = "gw_run sample_cfg
              [Access (Some ''alpine'') (sample_env ''sid-1'' 1000),
               Connect (with_token ?tok) 2000, AttachDone 0 (Inr ())]
              gw_start"
  let ?d = "\<lparr> claim_containerName = ''alpine'', claim_sessionId = ''sid-1'',
             claim_type = ''terminal-access'', claim_iat = 1, claim_exp = 301 \<rparr>"
  have c: "map c_outcome (gw_conns ?g) = [Streaming ''2e11bb'' ''sid-1'']"
    and r: "map c_ready (gw_conns ?g) = [OPEN]"
    and a: "gw_alive ?g"
    by (simp_all add: run_simps)
  have l: "0 < length (gw_conns ?g)" using c by (cases "gw_conns ?g") simp_all
  have n: "c_outcome (gw_conns ?g ! 0) = Streaming ''2e11bb'' ''sid-1''"
    using c by (cases "gw_conns ?g") simp_all
  have o: "c_ready (gw_conns ?g ! 0) \<noteq> CLOSED"
    using r by (cases "gw_conns ?g") simp_all
  have e: "\<forall>ev \<in> set [Access (Some ''nginx'') (sample_env ''sid-2'' 4000)].
             \<not> draws_uuid ''sid-1'' ev"
    by (simp add: sample_env_def)
  have v: "verifyToken sample_cfg 2000 ?tok = Some ?d"
    and v5: "verifyToken sample_cfg 5000 ?tok \<noteq> None"
    by (simp_all add: run_simps)
  have k: "claim_sessionId ?d = ''sid-1''" by simp
  have u: "url_parses (with_token ?tok)" and p: "token_param (with_token ?tok) = Some ?tok"
    by (simp_all add: with_token_def)
  from token_dead_after_close [OF a l n o e v k u p, of 5000] c v5
  show ?thesis by simp
qed

subsection \<open>C2: a valid token without a session\<close>

text \<open>
  Claim C2 says that every connection whose token verifies and whose session is not in
  the map is sent an error frame and closed. That is what lines 240 to 245 do for a
  request whose URL parses (\<open>connection_without_session\<close>). But line 220 stands outside
  every \<open>try\<close>: for the request target \<open>//?token=T\<close> the call \<open>new URL\<close> throws, no
  frame is sent, and the process ends. In the run below, with a token lifetime of one
  hour, the session \<open>sid-1\<close> is created at time 0 and swept by the request that arrives
  700 seconds later; its token still verifies; the connection that carries it in such a
  target ends as \<open>Crashed\<close>, with nothing sent, and the server is no longer running.
\<close>

theorem evicted_session_bad_target_crashes:
  "verifyToken long_cfg 700001 (generateToken long_cfg 0 ''alpine'' ''sid-1'') =
     Some \<lparr> claim_containerName = ''alpine'', claim_sessionId = ''sid-1'',
            claim_type = ''terminal-access'', claim_iat = 0, claim_exp = 3600 \<rparr> \<and>
   gw_sessions (gw_run long_cfg
      [Access (Some ''alpine'') (sample_env ''sid-1'' 0)] gw_start) ''sid-1'' =
     Some \<lparr> containerName = ''alpine'', containerId = ''2e11bb'', createdAt = 0 \<rparr> \<and>
   gw_sessions (gw_run long_cfg
      [Access (Some ''alpine'') (sample_env ''sid-1'' 0),
       Access (Some ''nginx'') (sample_env ''sid-2'' 700000)] gw_start) ''sid-1'' = None \<and>
   map c_outcome (gw_conns (gw_run long_cfg
      [Access (Some ''alpine'') (sample_env ''sid-1'' 0),
       Access (Some ''nginx'') (sample_env ''sid-2'' 700000),
       Connect (bad_target (generateToken long_cfg 0 ''alpine'' ''sid-1'')) 700001]
      gw_start)) = [Crashed] \<and>
   map c_log (gw_conns (gw_run long_cfg
      [Access (Some ''alpine'') (sample_env ''sid-1'' 0),
       Access (Some ''nginx'') (sample_env ''sid-2'' 700000),
       Connect (bad_target (generateToken long_cfg 0 ''alpine'' ''sid-1'')) 700001]
      gw_start)) = [[]] \<and>
   gw_alive (gw_run long_cfg
      [Access (Some ''alpine'') (sample_env ''sid-1'' 0),
       Access (Some ''nginx'') (sample_env ''sid-2'' 700000),
       Connect (bad_target (generateToken long_cfg 0 ''alpine'' ''sid-1'')) 700001]
      gw_start) = False \<and>
   connection_start long_cfg 700001
     (gw_sessions (gw_run long_cfg
        [Access (Some ''alpine'') (sample_env ''sid-1'' 0),
         Access (Some ''nginx'') (sample_env ''sid-2'' 700000)] gw_start))
     (with_token (generateToken long_cfg 0 ''alpine'' ''sid-1'')) =
     Rejected [Send (ErrorFrame ''Session not found or expired''), Close]"
  by (simp add: run_simps outcome_actions.simps)

subsection \<open>C3: what the token says about the container\<close>

text \<open>
  \<open>generateToken\<close> signs the query parameter and the session id; the id of the container
  goes into the session map and into the response, not into the token. For the request
  \<open>alpine\<close>, which resolves to the running container \<open>2e11bb\<close>, the decoded claims are
  \<open>alpine\<close>, \<open>sid-1\<close> and \<open>terminal-access\<close> with the two times, and none of them is
  the container's id.
\<close>

theorem token_claims_counterexample:
  "find_first (matches ''alpine'') sample_containers =
     Some \<lparr> c_Id = ''2e11bb'', c_Names = [''/test-alpine''], c_State = ''running'' \<rparr> \<and>
   fst (getaccess sample_cfg (sample_env ''sid-1'' 1000) (Some ''alpine'') Map.empty) =
     Success \<lparr> d_token = generateToken sample_cfg 1000 ''alpine'' ''sid-1'',
               d_sessionId = ''sid-1'', d_containerName = ''alpine'',
               d_containerId = ''2e11bb'', d_expiresIn = 300 \<rparr> \<and>
   verifyToken sample_cfg 2000 (generateToken sample_cfg 1000 ''alpine'' ''sid-1'') =
     Some \<lparr> claim_containerName = ''alpine'', claim_sessionId = ''sid-1'',
            claim_type = ''terminal-access'', claim_iat = 1, claim_exp = 301 \<rparr> \<and>
   ''alpine'' \<noteq> ''2e11bb'' \<and> ''sid-1'' \<noteq> ''2e11bb'' \<and> ''terminal-access'' \<noteq> ''2e11bb''"
  by (simp add: getaccess_def Let_def sample_env_def sample_containers_def matches_def
      sample_cfg_def generateToken_def jwt_sign_def verifyToken_def jwt_verify_def)

text \<open>
  Claim C3, as the code has it. When the request resolves to a running container, it
  succeeds, and the token it returns verifies (until its expiry) to a claim set that
  carries the query parameter as \<open>containerName\<close> and the new session id; the
  container's id is the \<open>containerId\<close> of the response and of the session that the map
  holds under that session id. (The two clock readings of lines 148 and 152 are taken
  less than ten minutes apart, so the sweep keeps the new session.)
\<close>

theorem token_claims_name_and_session:
  assumes "name \<noteq> []" and "listing env = Inr containers"
    and "find_first (matches name) containers = Some c" and "c_State c = ''running''"
    and "t_sweep env - 600000 \<le> t_created env"
    and "now div 1000 < t_sign env div 1000 + int (TOKEN_EXPIRY cfg)"
  shows "\<exists>d reg' decoded.
           getaccess cfg env (Some name) reg = (Success d, reg') \<and>
           verifyToken cfg now (d_token d) = Some decoded \<and>
           claim_containerName decoded = name \<and>
           claim_sessionId decoded = uuid env \<and>
           claim_type decoded = ''terminal-access'' \<and>
           d_sessionId d = uuid env \<and>
           d_containerId d = c_Id c \<and>
           reg' (claim_sessionId decoded) =
             Some \<lparr> containerName = name, containerId = c_Id c,
                    createdAt = t_created env \<rparr>"
  using assms
  by (simp add: getaccess_def Let_def verify_sign sweep_def)

theorem token_claims_name_and_session_witness:
  "\<exists>d reg' decoded.
     getaccess sample_cfg (sample_env ''sid-1'' 1000) (Some ''alpine'') Map.empty =
       (Success d, reg') \<and>
     verifyToken sample_cfg 2000 (d_token d) = Some decoded \<and>
     claim_containerName decoded = ''alpine'' \<and>
     claim_sessionId decoded = ''sid-1'' \<and>
     claim_type decoded = ''terminal-access'' \<and>
     d_sessionId d = ''sid-1'' \<and>
     d_containerId d = ''2e11bb'' \<and>
     reg' (claim_sessionId decoded) =
       Some \<lparr> containerName = ''alpine'', containerId = ''2e11bb'', createdAt = 1000 \<rparr>"
proof -
  have a: "''alpine'' \<noteq> []" by simp
  have l: "listing (sample_env ''sid-1'' 1000) = Inr sample_containers"
    by (simp add: sample_env_def)
  have f: "find_first (matches ''alpine'') sample_containers =
     Some \<lparr> c_Id = ''2e11bb'', c_Names = [''/test-alpine''], c_State = ''running'' \<rparr>"
    by (simp add: sample_containers_def matches_def)
  have r: "c_State \<lparr> c_Id = ''2e11bb'', c_Names = [''/test-alpine''],
                     c_State = ''running'' \<rparr> = ''running''"
    by simp
  have s: "t_sweep (sample_env ''sid-1'' 1000) - 600000 \<le> t_created (sample_env ''sid-1'' 1000)"
    by (simp add: sample_env_def)
  have v: "2000 div 1000 <
             t_sign (sample_env ''sid-1'' 1000) div 1000 + int (TOKEN_EXPIRY sample_cfg)"
    by (simp add: sample_env_def sample_cfg_def)
  from token_claims_name_and_session [OF a l f r s v, of Map.empty]
  show ?thesis by (simp add: sample_env_def)
qed

subsection \<open>C4: a failed attach\<close>

text \<open>
  Claim C4 says that after a failed attach the session is gone from the map. The
  \<open>'close'\<close> listener that deletes the session is registered at line 369, after the two
  \<open>await\<close>s; when one of them fails, the \<open>catch\<close> block sends the error frame and closes
  the socket, and the \<open>'close'\<close> event that follows finds no listener. In the run below
  the runtime rejects the attach: the connection ends as \<open>AttachFailed\<close> with the error
  frame and the close, the session \<open>sid-1\<close> is still in the map after the socket's
  \<open>'close'\<close> event, and the same token attaches a stream on the next attempt.
\<close>

theorem attach_failure_keeps_session:
  "map c_outcome (gw_conns (gw_run sample_cfg
      [Access (Some ''alpine'') (sample_env ''sid-1'' 1000),
       Connect (with_token (generateToken sample_cfg 1000 ''alpine'' ''sid-1'')) 2000,
       AttachDone 0 (Inl ''connect ENOENT /var/run/docker.sock''),
       SocketEvent 0 WsCloseEvent]
      gw_start)) =
     [AttachFailed ''2e11bb''
        [Send (ErrorFrame ''connect ENOENT /var/run/docker.sock''), Close]] \<and>
   on_connection sample_cfg 2000
     (gw_sessions (gw_run sample_cfg
        [Access (Some ''alpine'') (sample_env ''sid-1'' 1000)] gw_start))
     (with_token (generateToken sample_cfg 1000 ''alpine'' ''sid-1'')) bad_runtime =
     AttachFailed ''2e11bb''
        [Send (ErrorFrame ''connect ENOENT /var/run/docker.sock''), Close] \<and>
   gw_sessions (gw_run sample_cfg
      [Access (Some ''alpine'') (sample_env ''sid-1'' 1000),
       Connect (with_token (generateToken sample_cfg 1000 ''alpine'' ''sid-1'')) 2000,
       AttachDone 0 (Inl ''connect ENOENT /var/run/docker.sock''),
       SocketEvent 0 WsCloseEvent]
      gw_start) ''sid-1'' =
     Some \<lparr> containerName = ''alpine'', containerId = ''2e11bb'', createdAt = 1000 \<rparr> \<and>
   gw_deleted (gw_run sample_cfg
      [Access (Some ''alpine'') (sample_env ''sid-1'' 1000),
       Connect (with_token (generateToken sample_cfg 1000 ''alpine'' ''sid-1'')) 2000,
       AttachDone 0 (Inl ''connect ENOENT /var/run/docker.sock''),
       SocketEvent 0 WsCloseEvent]
      gw_start) = 0 \<and>
   map c_outcome (gw_conns (gw_run sample_cfg
      [Access (Some ''alpine'') (sample_env ''sid-1'' 1000),
       Connect (with_token (generateToken sample_cfg 1000 ''alpine'' ''sid-1'')) 2000,
       AttachDone 0 (Inl ''connect ENOENT /var/run/docker.sock''),
       SocketEvent 0 WsCloseEvent,
       Connect (with_token (generateToken sample_cfg 1000 ''alpine'' ''sid-1'')) 3000,
       AttachDone 1 (Inr ())]
      gw_start)) ! 1 = Streaming ''2e11bb'' ''sid-1''"
  by (simp add: run_simps)

subsection \<open>C5: the classification of a frame\<close>

text \<open>
  Rule 5 of section 4.4 takes a frame that begins with \<open>{\<close>, contains a width and a
  height key in one of the spellings \<open>Width\<close>, \<open>width\<close>, \<open>w\<close> and \<open>Height\<close>, \<open>height\<close>,
  \<open>h\<close>, parses, and has both dimensions. The frames \<open>{"w":80,"h":24}\<close> and
  \<open>{"Width":0,"Height":24}\<close> are such frames and match none of the rules 1 to 4; the
  handler writes each of them to the process as input, which is the outcome of rule 6.
\<close>

theorem demux_rule5_counterexample:
  "\<not> spec_corruption ''{\"w\":80,\"h\":24}'' \<and>
   \<not> spec_high_byte ''{\"w\":80,\"h\":24}'' \<and>
   \<not> spec_escape ''{\"w\":80,\"h\":24}'' \<and>
   \<not> spec_numeric ''{\"w\":80,\"h\":24}'' \<and>
   startsWith ''{\"w\":80,\"h\":24}'' ''{'' \<and>
   includes_str ''{\"w\":80,\"h\":24}'' ''w'' \<and>
   includes_str ''{\"w\":80,\"h\":24}'' ''h'' \<and>
   JSON_parse_samples ''{\"w\":80,\"h\":24}'' =
     Some [(''w'', JNum (Fin 80)), (''h'', JNum (Fin 24))] \<and>
   on_message JSON_parse_samples ToString_returns ''{\"w\":80,\"h\":24}'' =
     ForwardRaw ''{\"w\":80,\"h\":24}'' \<and>
   effects (on_message JSON_parse_samples ToString_returns ''{\"w\":80,\"h\":24}'') =
     [StreamWrite ''{\"w\":80,\"h\":24}''] \<and>
   \<not> spec_corruption ''{\"Width\":0,\"Height\":24}'' \<and>
   \<not> spec_high_byte ''{\"Width\":0,\"Height\":24}'' \<and>
   \<not> spec_escape ''{\"Width\":0,\"Height\":24}'' \<and>
   \<not> spec_numeric ''{\"Width\":0,\"Height\":24}'' \<and>
   startsWith ''{\"Width\":0,\"Height\":24}'' ''{'' \<and>
   includes_str ''{\"Width\":0,\"Height\":24}'' ''Width'' \<and>
   includes_str ''{\"Width\":0,\"Height\":24}'' ''Height'' \<and>
   JSON_parse_samples ''{\"Width\":0,\"Height\":24}'' =
     Some [(''Width'', JNum (Fin 0)), (''Height'', JNum (Fin 24))] \<and>
   on_message JSON_parse_samples ToString_returns ''{\"Width\":0,\"Height\":24}'' =
     ForwardRaw ''{\"Width\":0,\"Height\":24}'' \<and>
   effects (on_message JSON_parse_samples ToString_returns ''{\"Width\":0,\"Height\":24}'') =
     [StreamWrite ''{\"Width\":0,\"Height\":24}'']"
  unfolding spec_rules [symmetric]
  by (simp add: on_message_def sample_simps parse_simps)

text \<open>
  Claim C5, as the code has it. Every decoded frame ends the handler in exactly one of
  the six ways, decided by the first rule, in the order of section 4.4, that the frame
  matches. Rules 1 to 4 are those of the specification: the corruption signature; a
  frame under 50 bytes with a first byte over 127; both escape bytes; digits, a comma,
  digits, which is a resize with the first number as \<open>cols\<close> and the second as
  \<open>rows\<close>. A structured resize happens only for a frame that begins with \<open>{\<close>,
  contains \<open>Width\<close> or \<open>height\<close>, parses, and has truthy \<open>Height || height || h\<close> and
  \<open>Width || width || w\<close>; and it does happen for such a frame when both dimensions can
  be converted to a string. A frame that matches none of the rules 1 to 4 and does not
  begin with \<open>{\<close>, or contains neither \<open>Width\<close> nor \<open>height\<close>, or does not parse, or
  lacks a truthy dimension, is written to the process; and what is written is always
  the frame itself. The text \<open>80,24\<close> is a resize with \<open>h = 24\<close> and \<open>w = 80\<close> and
  nothing written; \<open>hello\<close> is written as it is; the bytes \<open>CD E4 D3 63 00\<close> are
  discarded. This holds for every behaviour of \<open>JSON.parse\<close> and of the string
  conversion.
\<close>

theorem demux_classification:
  "(on_message parse ts d = DiscardCorruption \<longleftrightarrow> spec_corruption d) \<and>
   (on_message parse ts d = DiscardHighByte \<longleftrightarrow> \<not> spec_corruption d \<and> spec_high_byte d) \<and>
   (on_message parse ts d = DiscardEscape \<longleftrightarrow>
      \<not> spec_corruption d \<and> \<not> spec_high_byte d \<and> spec_escape d) \<and>
   ((\<exists>rows cols. on_message parse ts d = ResizeNumeric rows cols) \<longleftrightarrow>
      \<not> spec_corruption d \<and> \<not> spec_high_byte d \<and> \<not> spec_escape d \<and> spec_numeric d) \<and>
   (\<forall>a b. \<not> spec_corruption d \<and> \<not> spec_high_byte d \<and> \<not> spec_escape d \<and>
          d = a @ '','' @ b \<and> spec_digits a \<and> spec_digits b \<longrightarrow>
      on_message parse ts d = ResizeNumeric (Number_digits b) (Number_digits a)) \<and>
   ((\<exists>rows cols. on_message parse ts d = ResizeStructured rows cols) \<longrightarrow>
      \<not> spec_corruption d \<and> \<not> spec_high_byte d \<and> \<not> spec_escape d \<and> \<not> spec_numeric d \<and>
      startsWith d ''{'' \<and> (includes_str d ''Width'' \<or> includes_str d ''height'') \<and>
      (\<exists>ms. parse d = Some ms \<and> truthy (resize_rows ms) \<and> truthy (resize_cols ms))) \<and>
   (\<forall>ms rows cols.
      \<not> spec_corruption d \<and> \<not> spec_high_byte d \<and> \<not> spec_escape d \<and> \<not> spec_numeric d \<and>
      startsWith d ''{'' \<and> (includes_str d ''Width'' \<or> includes_str d ''height'') \<and>
      parse d = Some ms \<and> resize_rows ms = Some rows \<and> resize_cols ms = Some cols \<and>
      truthy (Some rows) \<and> truthy (Some cols) \<and>
      template_ok ts rows \<and> template_ok ts cols \<longrightarrow>
      on_message parse ts d = ResizeStructured rows cols) \<and>
   (\<not> spec_corruption d \<and> \<not> spec_high_byte d \<and> \<not> spec_escape d \<and> \<not> spec_numeric d \<and>
    (\<not> startsWith d ''{'' \<or>
     \<not> (includes_str d ''Width'' \<or> includes_str d ''height'') \<or>
     parse d = None \<or>
     (\<exists>ms. parse d = Some ms \<and> \<not> (truthy (resize_rows ms) \<and> truthy (resize_cols ms)))) \<longrightarrow>
      on_message parse ts d = ForwardRaw d) \<and>
   ((\<exists>b. on_message parse ts d = ForwardRaw b) \<longrightarrow>
      \<not> spec_corruption d \<and> \<not> spec_high_byte d \<and> \<not> spec_escape d \<and> \<not> spec_numeric d \<and>
      on_message parse ts d = ForwardRaw d) \<and>
   on_message parse ts ''80,24'' = ResizeNumeric (Fin 24) (Fin 80) \<and>
   effects (on_message parse ts ''80,24'') = [ExecResize (JNum (Fin 24)) (JNum (Fin 80))] \<and>
   on_message parse ts ''hello'' = ForwardRaw ''hello'' \<and>
   effects (on_message parse ts ''hello'') = [StreamWrite ''hello''] \<and>
   on_message parse ts [CHR 0xCD, CHR 0xE4, CHR 0xD3, CHR 0x63, CHR 0x00] = DiscardCorruption \<and>
   effects (on_message parse ts [CHR 0xCD, CHR 0xE4, CHR 0xD3, CHR 0x63, CHR 0x00]) = []"
proof -
  have r1: "on_message parse ts d = DiscardCorruption \<longleftrightarrow> spec_corruption d"
    unfolding spec_rules [symmetric]
    by (auto simp: on_message_def split: option.splits)
  have r2: "on_message parse ts d = DiscardHighByte \<longleftrightarrow>
              \<not> spec_corruption d \<and> spec_high_byte d"
    unfolding spec_rules [symmetric]
    by (auto simp: on_message_def split: option.splits)
  have r3: "on_message parse ts d = DiscardEscape \<longleftrightarrow>
              \<not> spec_corruption d \<and> \<not> spec_high_byte d \<and> spec_escape d"
    unfolding spec_rules [symmetric]
    by (auto simp: on_message_def split: option.splits)
  have r4: "(\<exists>rows cols. on_message parse ts d = ResizeNumeric rows cols) \<longleftrightarrow>
              \<not> spec_corruption d \<and> \<not> spec_high_byte d \<and> \<not> spec_escape d \<and> spec_numeric d"
    unfolding spec_rules [symmetric]
    by (auto simp: on_message_def split: option.splits)
  have r4v: "on_message parse ts d = ResizeNumeric (Number_digits b) (Number_digits a)"
    if "\<not> spec_corruption d" "\<not> spec_high_byte d" "\<not> spec_escape d"
      "d = a @ '','' @ b" "spec_digits a" "spec_digits b" for a b
  proof -
    have "spec_numeric d" using that(4-6) unfolding spec_numeric_def by blast
    then have "on_message parse ts d = ResizeNumeric (split_rows d) (split_cols d)"
      using that(1-3) unfolding spec_rules [symmetric] by (simp add: on_message_def)
    then show ?thesis
      unfolding that(4) using numeric_split [OF that(5), of b] by simp
  qed
  have r5a: "(\<exists>rows cols. on_message parse ts d = ResizeStructured rows cols) \<longrightarrow>
      \<not> spec_corruption d \<and> \<not> spec_high_byte d \<and> \<not> spec_escape d \<and> \<not> spec_numeric d \<and>
      startsWith d ''{'' \<and> (includes_str d ''Width'' \<or> includes_str d ''height'') \<and>
      (\<exists>ms. parse d = Some ms \<and> truthy (resize_rows ms) \<and> truthy (resize_cols ms))"
    unfolding spec_rules [symmetric]
    by (auto simp: on_message_def json_gate_def split: option.splits if_splits)
  have r5b: "on_message parse ts d = ResizeStructured rows cols"
    if "\<not> spec_corruption d \<and> \<not> spec_high_byte d \<and> \<not> spec_escape d \<and> \<not> spec_numeric d \<and>
      startsWith d ''{'' \<and> (includes_str d ''Width'' \<or> includes_str d ''height'') \<and>
      parse d = Some ms \<and> resize_rows ms = Some rows \<and> resize_cols ms = Some cols \<and>
      truthy (Some rows) \<and> truthy (Some cols) \<and>
      template_ok ts rows \<and> template_ok ts cols" for ms rows cols
    using that unfolding spec_rules [symmetric]
    by (simp add: on_message_def json_gate_def)
  have r6a: "\<not> spec_corruption d \<and> \<not> spec_high_byte d \<and> \<not> spec_escape d \<and>
    \<not> spec_numeric d \<and>
    (\<not> startsWith d ''{'' \<or>
     \<not> (includes_str d ''Width'' \<or> includes_str d ''height'') \<or>
     parse d = None \<or>
     (\<exists>ms. parse d = Some ms \<and> \<not> (truthy (resize_rows ms) \<and> truthy (resize_cols ms)))) \<longrightarrow>
      on_message parse ts d = ForwardRaw d"
    unfolding spec_rules [symmetric]
    by (auto simp: on_message_def json_gate_def split: option.splits dest: truthy_Some)
  have r6b: "(\<exists>b. on_message parse ts d = ForwardRaw b) \<longrightarrow>
      \<not> spec_corruption d \<and> \<not> spec_high_byte d \<and> \<not> spec_escape d \<and> \<not> spec_numeric d \<and>
      on_message parse ts d = ForwardRaw d"
    unfolding spec_rules [symmetric]
    by (auto simp: on_message_def split: option.splits if_splits)
  have e1: "on_message parse ts ''80,24'' = ResizeNumeric (Fin 24) (Fin 80)"
    by (simp add: on_message_def sample_simps)
  have e2: "on_message parse ts ''hello'' = ForwardRaw ''hello''"
    by (simp add: on_message_def sample_simps)
  have e3: "on_message parse ts [CHR 0xCD, CHR 0xE4, CHR 0xD3, CHR 0x63, CHR 0x00] =
              DiscardCorruption"
    by (simp add: on_message_def sample_simps)
  from r4v have r4v': "\<forall>a b. \<not> spec_corruption d \<and> \<not> spec_high_byte d \<and> \<not> spec_escape d \<and>
          d = a @ '','' @ b \<and> spec_digits a \<and> spec_digits b \<longrightarrow>
      on_message parse ts d = ResizeNumeric (Number_digits b) (Number_digits a)"
    by blast
  from r5b have r5b': "\<forall>ms rows cols.
      \<not> spec_corruption d \<and> \<not> spec_high_byte d \<and> \<not> spec_escape d \<and> \<not> spec_numeric d \<and>
      startsWith d ''{'' \<and> (includes_str d ''Width'' \<or> includes_str d ''height'') \<and>
      parse d = Some ms \<and> resize_rows ms = Some rows \<and> resize_cols ms = Some cols \<and>
      truthy (Some rows) \<and> truthy (Some cols) \<and>
      template_ok ts rows \<and> template_ok ts cols \<longrightarrow>
      on_message parse ts d = ResizeStructured rows cols"
    by blast
  have ex: "effects (ResizeNumeric (Fin 24) (Fin 80)) = [ExecResize (JNum (Fin 24)) (JNum (Fin 80))]"
    "effects (ForwardRaw ''hello'') = [StreamWrite ''hello'']"
    "effects DiscardCorruption = []"
    by simp_all
  show ?thesis
    unfolding e1 e2 e3 ex
    by (intro conjI r1 r2 r3 r4 r4v' r5a r5b' r6a r6b refl)
qed

text \<open>
  The instance: the frame \<open>{"Width":80,"Height":24}\<close> matches none of the rules 1 to
  4, passes the test of line 322, parses, and has two truthy numbers as dimensions, so
  it is a structured resize with \<open>h = 24\<close> and \<open>w = 80\<close>; and \<open>1234,56\<close> is a resize to
  56 rows and 1234 columns.
\<close>

theorem demux_classification_witness:
  "\<not> spec_corruption ''{\"Width\":80,\"Height\":24}'' \<and>
   \<not> spec_high_byte ''{\"Width\":80,\"Height\":24}'' \<and>
   \<not> spec_escape ''{\"Width\":80,\"Height\":24}'' \<and>
   \<not> spec_numeric ''{\"Width\":80,\"Height\":24}'' \<and>
   on_message JSON_parse_samples ToString_returns ''{\"Width\":80,\"Height\":24}'' =
     ResizeStructured (JNum (Fin 24)) (JNum (Fin 80)) \<and>
   on_message JSON_parse_samples ToString_returns ''1234,56'' =
     ResizeNumeric (Fin 56) (Fin 1234)"
proof -
  let ?d = "''{\"Width\":80,\"Height\":24}''"
  let ?ms = "[(''Width'', JNum (Fin 80)), (''Height'', JNum (Fin 24))]"
  have a: "\<not> spec_corruption ?d" "\<not> spec_high_byte ?d" "\<not> spec_escape ?d"
    "\<not> spec_numeric ?d"
    unfolding spec_rules [symmetric] by (simp_all add: sample_simps)
  have g: "startsWith ?d ''{''" "includes_str ?d ''Width'' \<or> includes_str ?d ''height''"
    by simp_all
  have p: "JSON_parse_samples ?d = Some ?ms"
    "resize_rows ?ms = Some (JNum (Fin 24))" "resize_cols ?ms = Some (JNum (Fin 80))"
    "truthy (Some (JNum (Fin 24)))" "truthy (Some (JNum (Fin 80)))"
    "template_ok ToString_returns (JNum (Fin 24))"
    "template_ok ToString_returns (JNum (Fin 80))"
    by (simp_all add: parse_simps)
  have b: "\<not> spec_corruption ''1234,56''" "\<not> spec_high_byte ''1234,56''"
    "\<not> spec_escape ''1234,56''"
    unfolding spec_rules [symmetric] by (simp_all add: sample_simps)
  have s: "''1234,56'' = ''1234'' @ '','' @ ''56''" "spec_digits ''1234''" "spec_digits ''56''"
    by (simp_all add: spec_digits_def)
  have n: "Number_digits ''56'' = Fin 56" "Number_digits ''1234'' = Fin 1234"
    by (simp_all add: sample_simps)
  from demux_classification [of JSON_parse_samples ToString_returns ?d] a g p
  have 1: "on_message JSON_parse_samples ToString_returns ?d =
             ResizeStructured (JNum (Fin 24)) (JNum (Fin 80))"
    by blast
  from demux_classification [of JSON_parse_samples ToString_returns "''1234,56''"] b s
  have "on_message JSON_parse_samples ToString_returns ''1234,56'' =
          ResizeNumeric (Number_digits ''56'') (Number_digits ''1234'')"
    by blast
  with 1 a n show ?thesis by simp
qed

subsection \<open>C6: the structured resize\<close>

text \<open>
  Line 322 lets a frame reach \<open>JSON.parse\<close> only when its text contains \<open>Width\<close> or
  \<open>height\<close>, and line 327 asks for truthy dimensions. So \<open>{"w":80,"h":24}\<close>, which
  begins with \<open>{\<close>, parses, and has both \<open>w\<close> and \<open>h\<close>, is written to the process as
  input; and so is \<open>{"Width":0,"Height":24}\<close>, in which both dimensions are present
  and the width is 0.
\<close>

theorem structured_resize_counterexample:
  "startsWith ''{\"w\":80,\"h\":24}'' ''{'' \<and>
   JSON_parse_samples ''{\"w\":80,\"h\":24}'' =
     Some [(''w'', JNum (Fin 80)), (''h'', JNum (Fin 24))] \<and>
   resize_rows [(''w'', JNum (Fin 80)), (''h'', JNum (Fin 24))] = Some (JNum (Fin 24)) \<and>
   resize_cols [(''w'', JNum (Fin 80)), (''h'', JNum (Fin 24))] = Some (JNum (Fin 80)) \<and>
   on_message JSON_parse_samples ToString_returns ''{\"w\":80,\"h\":24}'' =
     ForwardRaw ''{\"w\":80,\"h\":24}'' \<and>
   startsWith ''{\"Width\":0,\"Height\":24}'' ''{'' \<and>
   JSON_parse_samples ''{\"Width\":0,\"Height\":24}'' =
     Some [(''Width'', JNum (Fin 0)), (''Height'', JNum (Fin 24))] \<and>
   get_prop [(''Width'', JNum (Fin 0)), (''Height'', JNum (Fin 24))] ''Width'' =
     Some (JNum (Fin 0)) \<and>
   get_prop [(''Width'', JNum (Fin 0)), (''Height'', JNum (Fin 24))] ''Height'' =
     Some (JNum (Fin 24)) \<and>
   on_message JSON_parse_samples ToString_returns ''{\"Width\":0,\"Height\":24}'' =
     ForwardRaw ''{\"Width\":0,\"Height\":24}''"
  by (simp add: on_message_def sample_simps parse_simps)

text \<open>
  Claim C6, as the code has it. For a decoded frame that matches none of the rules 1
  to 4, whose text begins with \<open>{\<close> and contains \<open>Width\<close> or \<open>height\<close>: when
  \<open>JSON.parse\<close> throws, the frame is written to the process as raw input; when it
  returns, both \<open>Height || height || h\<close> and \<open>Width || width || w\<close> are truthy, and both
  can be converted to a string (as every number, string and boolean can), the handler
  calls \<open>exec.resize\<close> with them and writes nothing; when it returns and a dimension is
  missing or falsy, the frame is written as raw input.
\<close>

theorem structured_resize_gated:
  assumes "\<not> spec_corruption d" and "\<not> spec_high_byte d" and "\<not> spec_escape d"
    and "\<not> spec_numeric d"
    and "startsWith d ''{''"
    and "includes_str d ''Width'' \<or> includes_str d ''height''"
  shows "(parse d = None \<longrightarrow>
            on_message parse ts d = ForwardRaw d \<and>
            effects (on_message parse ts d) = [StreamWrite d]) \<and>
         (\<forall>ms rows cols.
            parse d = Some ms \<and> resize_rows ms = Some rows \<and> resize_cols ms = Some cols \<and>
            truthy (Some rows) \<and> truthy (Some cols) \<and>
            template_ok ts rows \<and> template_ok ts cols \<longrightarrow>
            on_message parse ts d = ResizeStructured rows cols \<and>
            effects (on_message parse ts d) = [ExecResize rows cols]) \<and>
         (\<forall>ms n m.
            parse d = Some ms \<and> resize_rows ms = Some (JNum n) \<and>
            resize_cols ms = Some (JNum m) \<and> n \<noteq> Fin 0 \<and> m \<noteq> Fin 0 \<longrightarrow>
            effects (on_message parse ts d) = [ExecResize (JNum n) (JNum m)]) \<and>
         (\<forall>ms. parse d = Some ms \<and>
               \<not> (truthy (resize_rows ms) \<and> truthy (resize_cols ms)) \<longrightarrow>
            on_message parse ts d = ForwardRaw d \<and>
            effects (on_message parse ts d) = [StreamWrite d])"
  using assms unfolding spec_rules [symmetric]
  by (auto simp: on_message_def json_gate_def template_ok_def split: option.splits)

theorem structured_resize_gated_witness:
  "on_message JSON_parse_samples ToString_returns ''{\"width\":80,\"height\":24}'' =
     ResizeStructured (JNum (Fin 24)) (JNum (Fin 80)) \<and>
   effects (on_message JSON_parse_samples ToString_returns ''{\"width\":80,\"height\":24}'') =
     [ExecResize (JNum (Fin 24)) (JNum (Fin 80))]"
proof -
  let ?d = "''{\"width\":80,\"height\":24}''"
  let ?ms = "[(''width'', JNum (Fin 80)), (''height'', JNum (Fin 24))]"
  have a: "\<not> spec_corruption ?d" "\<not> spec_high_byte ?d" "\<not> spec_escape ?d"
    "\<not> spec_numeric ?d"
    unfolding spec_rules [symmetric] by (simp_all add: sample_simps)
  have g: "startsWith ?d ''{''" "includes_str ?d ''Width'' \<or> includes_str ?d ''height''"
    by simp_all
  have p: "JSON_parse_samples ?d = Some ?ms"
    "resize_rows ?ms = Some (JNum (Fin 24))" "resize_cols ?ms = Some (JNum (Fin 80))"
    "truthy (Some (JNum (Fin 24)))" "truthy (Some (JNum (Fin 80)))"
    "template_ok ToString_returns (JNum (Fin 24))"
    "template_ok ToString_returns (JNum (Fin 80))"
    by (simp_all add: parse_simps)
  note t = structured_resize_gated [OF a g, of JSON_parse_samples ToString_returns]
  from t [THEN conjunct2, THEN conjunct1, rule_format,
          of ?ms "JNum (Fin 24)" "JNum (Fin 80)"] p
  show ?thesis by simp
qed

text \<open>
  The frame \<open>{"Width":{"toString":1},"Height":24}\<close>: both dimensions are truthy, the
  conversion of the width for the log line throws, and the frame is written to the
  process.
\<close>

lemma unprintable_dimension_forwarded:
  "on_message JSON_parse_samples ToString_returns ''{\"Width\":{\"toString\":1},\"Height\":24}'' =
     ForwardRaw ''{\"Width\":{\"toString\":1},\"Height\":24}''"
  by (simp add: on_message_def sample_simps parse_simps)

subsection \<open>C7: a token that does not verify\<close>

text \<open>
  Claim C7 has two parts. The first holds: whatever \<open>jwt.verify\<close> throws,
  \<open>verifyToken\<close> returns \<open>null\<close>, and for a request whose URL parses the handler then
  sends one error frame, closes and returns (\<open>connection_with_failing_token\<close>). The
  second part is said of every connection that presents such a token, and line 220
  stands outside every \<open>try\<close>: for the request target \<open>//?token=abc\<close> the call
  \<open>new URL\<close> throws before the token is looked at. In the run below the token \<open>abc\<close>
  is no token, \<open>verifyToken\<close> returns \<open>null\<close> for it, and the connection that carries
  it in such a target ends as \<open>Crashed\<close>: no frame is sent, the socket is not closed by
  the handler, and the server is no longer running.
\<close>

theorem failing_token_bad_target_crashes:
  "jwt_verify (NotAToken ''abc'') (JWT_SECRET sample_cfg) 2000 = Inl JsonWebTokenMalformed \<and>
   verifyToken sample_cfg 2000 (NotAToken ''abc'') = None \<and>
   connection_start sample_cfg 2000 Map.empty (bad_target (NotAToken ''abc'')) = Crashed \<and>
   on_connection sample_cfg 2000 Map.empty (bad_target (NotAToken ''abc'')) good_runtime =
     Crashed \<and>
   map c_outcome (gw_conns (gw_run sample_cfg
      [Connect (bad_target (NotAToken ''abc'')) 2000] gw_start)) = [Crashed] \<and>
   map c_log (gw_conns (gw_run sample_cfg
      [Connect (bad_target (NotAToken ''abc'')) 2000] gw_start)) = [[]] \<and>
   map c_ready (gw_conns (gw_run sample_cfg
      [Connect (bad_target (NotAToken ''abc'')) 2000] gw_start)) = [OPEN] \<and>
   gw_alive (gw_run sample_cfg
      [Connect (bad_target (NotAToken ''abc'')) 2000] gw_start) = False \<and>
   connection_start sample_cfg 2000 Map.empty (with_token (NotAToken ''abc'')) =
     Rejected [Send (ErrorFrame ''Invalid or expired token''), Close]"
  by (simp add: run_simps)

subsection \<open>C8: requests that fail\<close>

text \<open>
  Claim C8. For a request with a non-empty \<open>containerName\<close> and a listing that the
  runtime returned: when no listed container matches, the response is 404 with the
  \<open>not found\<close> message; when the matched container (the first of the listing that
  matches, as \<open>find\<close> returns it) is in a state other than \<open>running\<close>, the response is
  400 with the \<open>is not running\<close> message; and in both cases \<open>activeSessions\<close> is left
  as it was.
\<close>

theorem getaccess_not_found_not_running:
  assumes "name \<noteq> []" and "listing env = Inr containers"
  shows "((\<forall>c \<in> set containers. \<not> matches name c) \<longrightarrow>
            getaccess cfg env (Some name) reg = (Failure 404 (not_found_message name), reg)) \<and>
         (\<forall>c. find_first (matches name) containers = Some c \<and> c_State c \<noteq> ''running'' \<longrightarrow>
            getaccess cfg env (Some name) reg =
              (Failure 400 (not_running_message name (c_State c)), reg))"
  using assms by (auto simp: getaccess_def find_first_None_iff [symmetric])

theorem getaccess_not_found_not_running_witness:
  "getaccess sample_cfg (sample_env ''sid-1'' 1000) (Some ''redis'') Map.empty =
     (Failure 404 (not_found_message ''redis''), Map.empty) \<and>
   getaccess sample_cfg (sample_env ''sid-1'' 1000) (Some ''ubuntu'') Map.empty =
     (Failure 400 (not_running_message ''ubuntu'' ''exited''), Map.empty)"
proof -
  have a: "''redis'' \<noteq> []" "''ubuntu'' \<noteq> []" by simp_all
  have l: "listing (sample_env ''sid-1'' 1000) = Inr sample_containers"
    by (simp add: sample_env_def)
  have n: "\<forall>c \<in> set sample_containers. \<not> matches ''redis'' c"
    by (simp add: sample_containers_def matches_def)
  have f: "find_first (matches ''ubuntu'') sample_containers =
             Some \<lparr> c_Id = ''1f00aa'', c_Names = [''/test-ubuntu''], c_State = ''exited'' \<rparr>"
    by (simp add: sample_containers_def matches_def)
  from getaccess_not_found_not_running [OF a(1) l, of sample_cfg Map.empty]
       getaccess_not_found_not_running [OF a(2) l, of sample_cfg Map.empty] n f
  show ?thesis by simp
qed

subsection \<open>C9: teardown\<close>

text \<open>
  Claim C9 says that closing a connection, from either side, deletes the session
  exactly once. That is what the listeners do when the socket is open and the session
  is in the map at the time they are registered (\<open>teardown_from_open\<close>). But they are
  registered at lines 361 to 387, after the \<open>await\<close>s of lines 254 and 264. In the run
  below the client closes the socket while the handler waits for the runtime: the one
  \<open>'close'\<close> event of the socket finds no listener. The attach then succeeds and the
  listeners are registered on a closed socket. The stream ends, the stream fails: both
  listeners test for an open socket and do nothing. At the end the connection is
  \<open>Streaming\<close> on a \<open>CLOSED\<close> socket, \<open>stream.end()\<close> has never been called for it, no
  call of \<open>activeSessions.delete\<close> has been made, and the session \<open>sid-1\<close> is still in
  the map.
\<close>

theorem close_during_attach_keeps_session:
  "map c_outcome (gw_conns (gw_run sample_cfg
      [Access (Some ''alpine'') (sample_env ''sid-1'' 1000),
       Connect (with_token (generateToken sample_cfg 1000 ''alpine'' ''sid-1'')) 2000,
       SocketEvent 0 WsCloseEvent,
       AttachDone 0 (Inr ()),
       SocketEvent 0 StreamEnd,
       SocketEvent 0 (StreamError ''read ECONNRESET''),
       SocketEvent 0 WsErrorEvent,
       SocketEvent 0 WsCloseEvent]
      gw_start)) = [Streaming ''2e11bb'' ''sid-1''] \<and>
   map c_ready (gw_conns (gw_run sample_cfg
      [Access (Some ''alpine'') (sample_env ''sid-1'' 1000),
       Connect (with_token (generateToken sample_cfg 1000 ''alpine'' ''sid-1'')) 2000,
       SocketEvent 0 WsCloseEvent,
       AttachDone 0 (Inr ()),
       SocketEvent 0 StreamEnd,
       SocketEvent 0 (StreamError ''read ECONNRESET''),
       SocketEvent 0 WsErrorEvent,
       SocketEvent 0 WsCloseEvent]
      gw_start)) = [CLOSED] \<and>
   map c_end_calls (gw_conns (gw_run sample_cfg
      [Access (Some ''alpine'') (sample_env ''sid-1'' 1000),
       Connect (with_token (generateToken sample_cfg 1000 ''alpine'' ''sid-1'')) 2000,
       SocketEvent 0 WsCloseEvent,
       AttachDone 0 (Inr ()),
       SocketEvent 0 StreamEnd,
       SocketEvent 0 (StreamError ''read ECONNRESET''),
       SocketEvent 0 WsErrorEvent,
       SocketEvent 0 WsCloseEvent]
      gw_start)) = [0] \<and>
   gw_deleted (gw_run sample_cfg
      [Access (Some ''alpine'') (sample_env ''sid-1'' 1000),
       Connect (with_token (generateToken sample_cfg 1000 ''alpine'' ''sid-1'')) 2000,
       SocketEvent 0 WsCloseEvent,
       AttachDone 0 (Inr ()),
       SocketEvent 0 StreamEnd,
       SocketEvent 0 (StreamError ''read ECONNRESET''),
       SocketEvent 0 WsErrorEvent,
       SocketEvent 0 WsCloseEvent]
      gw_start) = 0 \<and>
   gw_sessions (gw_run sample_cfg
      [Access (Some ''alpine'') (sample_env ''sid-1'' 1000),
       Connect (with_token (generateToken sample_cfg 1000 ''alpine'' ''sid-1'')) 2000,
       SocketEvent 0 WsCloseEvent,
       AttachDone 0 (Inr ()),
       SocketEvent 0 StreamEnd,
       SocketEvent 0 (StreamError ''read ECONNRESET''),
       SocketEvent 0 WsErrorEvent,
       SocketEvent 0 WsCloseEvent]
      gw_start) ''sid-1'' =
     Some \<lparr> containerName = ''alpine'', containerId = ''2e11bb'', createdAt = 1000 \<rparr>"
  by (simp add: run_simps handler_simps)

text \<open>
  The same connection when the client closes the socket after the attach: the session
  is deleted, once.
\<close>

lemma close_after_attach_deletes_session:
  "gw_deleted (gw_run sample_cfg
      [Access (Some ''alpine'') (sample_env ''sid-1'' 1000),
       Connect (with_token (generateToken sample_cfg 1000 ''alpine'' ''sid-1'')) 2000,
       AttachDone 0 (Inr ()),
       SocketEvent 0 WsCloseEvent,
       SocketEvent 0 StreamEnd,
       SocketEvent 0 WsCloseEvent]
      gw_start) = 1 \<and>
   gw_sessions (gw_run sample_cfg
      [Access (Some ''alpine'') (sample_env ''sid-1'' 1000),
       Connect (with_token (generateToken sample_cfg 1000 ''alpine'' ''sid-1'')) 2000,
       AttachDone 0 (Inr ()),
       SocketEvent 0 WsCloseEvent,
       SocketEvent 0 StreamEnd,
       SocketEvent 0 WsCloseEvent]
      gw_start) ''sid-1'' = None"
  by (simp add: run_simps handler_simps)

subsection \<open>C10: the container name in the token\<close>



end
